theory Spec2Isabelle
  imports Complex_Main
begin

section \<open>StockScope: series generators, indicators, chart mapping, watchlist, carousel\<close>

text \<open>
  A shallow embedding of the parts of \<^verbatim>\<open>src/script.js\<close> (class \<^verbatim>\<open>StockAnalyzer\<close>)
  that the specification's testable properties are about.

  Conventions of the embedding.
  \<^item> A JavaScript number that is always finite in the code is a \<^typ>\<open>real\<close>: arithmetic
    is exact, the binary rounding of IEEE doubles is not modelled.
  \<^item> Where the code can produce a non-finite number (a division by a range or a length
    that may be zero, \<^verbatim>\<open>Math.min\<close> of no arguments) the value is a \<open>jsnum\<close>, which
    adds \<^verbatim>\<open>Infinity\<close>, \<^verbatim>\<open>-Infinity\<close> and \<^verbatim>\<open>NaN\<close> to the reals.
  \<^item> \<^verbatim>\<open>Math.random()\<close> is a sequence \<open>rnd :: nat \<Rightarrow> real\<close> of draws, read with an
    explicit counter in the order in which the code draws.
  \<^item> A thrown \<^verbatim>\<open>TypeError\<close> is the left injection of a sum type.
  \<^item> The canvas context is the list of the calls made on it, in order.
\<close>

subsection \<open>JavaScript numbers\<close>

datatype jsnum = Fin real | PInf | NInf | NaN

datatype error = TypeError

type_synonym rng = "nat \<Rightarrow> real"

fun jneg :: "jsnum \<Rightarrow> jsnum" where
  "jneg (Fin a) = Fin (- a)"
| "jneg PInf = NInf"
| "jneg NInf = PInf"
| "jneg NaN = NaN"

fun jadd :: "jsnum \<Rightarrow> jsnum \<Rightarrow> jsnum" where
  "jadd (Fin a) (Fin b) = Fin (a + b)"
| "jadd NaN _ = NaN"
| "jadd _ NaN = NaN"
| "jadd PInf NInf = NaN"
| "jadd NInf PInf = NaN"
| "jadd PInf _ = PInf"
| "jadd _ PInf = PInf"
| "jadd NInf _ = NInf"
| "jadd _ NInf = NInf"

definition jsub :: "jsnum \<Rightarrow> jsnum \<Rightarrow> jsnum" where
  "jsub a b = jadd a (jneg b)"

text \<open>The sign of a product or quotient with an infinite operand; zero has no sign bit here.\<close>

definition signed_inf :: "bool \<Rightarrow> jsnum" where
  "signed_inf positive = (if positive then PInf else NInf)"

fun jmul :: "jsnum \<Rightarrow> jsnum \<Rightarrow> jsnum" where
  "jmul (Fin a) (Fin b) = Fin (a * b)"
| "jmul NaN _ = NaN"
| "jmul _ NaN = NaN"
| "jmul (Fin a) PInf = (if a = 0 then NaN else signed_inf (0 < a))"
| "jmul (Fin a) NInf = (if a = 0 then NaN else signed_inf (a < 0))"
| "jmul PInf (Fin b) = (if b = 0 then NaN else signed_inf (0 < b))"
| "jmul NInf (Fin b) = (if b = 0 then NaN else signed_inf (b < 0))"
| "jmul PInf PInf = PInf"
| "jmul NInf NInf = PInf"
| "jmul PInf NInf = NInf"
| "jmul NInf PInf = NInf"

fun jdiv :: "jsnum \<Rightarrow> jsnum \<Rightarrow> jsnum" where
  "jdiv (Fin a) (Fin b) =
     (if b \<noteq> 0 then Fin (a / b) else if a = 0 then NaN else signed_inf (0 < a))"
| "jdiv NaN _ = NaN"
| "jdiv _ NaN = NaN"
| "jdiv (Fin a) PInf = Fin 0"
| "jdiv (Fin a) NInf = Fin 0"
| "jdiv PInf (Fin b) = signed_inf (0 \<le> b)"
| "jdiv NInf (Fin b) = signed_inf (b < 0)"
| "jdiv PInf PInf = NaN"
| "jdiv PInf NInf = NaN"
| "jdiv NInf PInf = NaN"
| "jdiv NInf NInf = NaN"

text \<open>\<^verbatim>\<open>Math.min(a, b)\<close> and \<^verbatim>\<open>Math.max(a, b)\<close>: \<^verbatim>\<open>NaN\<close> if either argument is.\<close>

fun jmin2 :: "jsnum \<Rightarrow> jsnum \<Rightarrow> jsnum" where
  "jmin2 (Fin a) (Fin b) = Fin (min a b)"
| "jmin2 NaN _ = NaN"
| "jmin2 _ NaN = NaN"
| "jmin2 NInf _ = NInf"
| "jmin2 _ NInf = NInf"
| "jmin2 PInf b = b"
| "jmin2 a PInf = a"

fun jmax2 :: "jsnum \<Rightarrow> jsnum \<Rightarrow> jsnum" where
  "jmax2 (Fin a) (Fin b) = Fin (max a b)"
| "jmax2 NaN _ = NaN"
| "jmax2 _ NaN = NaN"
| "jmax2 PInf _ = PInf"
| "jmax2 _ PInf = PInf"
| "jmax2 NInf b = b"
| "jmax2 a NInf = a"

text \<open>\<^verbatim>\<open>Math.min(...xs)\<close> starts from \<^verbatim>\<open>Infinity\<close>, \<^verbatim>\<open>Math.max(...xs)\<close> from \<^verbatim>\<open>-Infinity\<close>.\<close>

definition Math_min :: "real list \<Rightarrow> jsnum" where
  "Math_min xs = fold (\<lambda>x m. jmin2 m (Fin x)) xs PInf"

definition Math_max :: "real list \<Rightarrow> jsnum" where
  "Math_max xs = fold (\<lambda>x m. jmax2 m (Fin x)) xs NInf"

text \<open>Truthiness of a number, and \<^verbatim>\<open>a || b\<close> on numbers.\<close>

definition truthy :: "jsnum \<Rightarrow> bool" where
  "truthy a = (a \<noteq> Fin 0 \<and> a \<noteq> NaN)"

definition jor :: "jsnum \<Rightarrow> jsnum \<Rightarrow> jsnum" where
  "jor a b = (if truthy a then a else b)"

text \<open>\<^verbatim>\<open>Math.round(x * 100) / 100\<close>: \<^verbatim>\<open>Math.round\<close> rounds to the nearest integer, halves up.\<close>

definition Math_round :: "real \<Rightarrow> int" where
  "Math_round x = \<lfloor>x + 1 / 2\<rfloor>"

definition round2 :: "real \<Rightarrow> real" where
  "round2 x = real_of_int (Math_round (x * 100)) / 100"

subsection \<open>Carousel\<close>

text \<open>
  The part of the page that \<^verbatim>\<open>moveCarousel\<close> reads. An element is the list of the names
  in its \<^verbatim>\<open>class\<close> attribute; the document gives, for an element id, the elements below
  that element in document order, or \<open>None\<close> when no element has the id.
\<close>

type_synonym element = "string list"

type_synonym document = "string \<Rightarrow> element list option"

text \<open>\<^verbatim>\<open>container.querySelectorAll('.' + c)\<close>: the elements below that carry the class.\<close>

definition querySelectorAll_class :: "string \<Rightarrow> element list \<Rightarrow> element list" where
  "querySelectorAll_class c elements = filter (\<lambda>e. c \<in> set e) elements"

text \<open>An entry of \<^verbatim>\<open>marketData.bullish\<close>, \<^verbatim>\<open>.trending\<close> or \<^verbatim>\<open>.bearish\<close>.\<close>

record market_stock =
  m_symbol :: string
  m_name :: string
  m_price :: real
  m_change :: real
  m_changePercent :: real
  m_volume :: int

text \<open>
  \<^verbatim>\<open>createStockCard(stock, index)\<close> and \<^verbatim>\<open>createActiveStockCard(stock, index)\<close>: the card
  element and the elements of its \<^verbatim>\<open>innerHTML\<close> template, by their classes (the
  \<^verbatim>\<open>h4\<close> has none). The canvas that a timer adds to the chart container later has no
  class either.
\<close>

definition createStockCard :: "market_stock \<Rightarrow> element list" where
  "createStockCard stock =
     (let changeClass = (if m_change stock \<ge> 0 then ''positive'' else ''negative'');
          changeIcon = (if m_change stock \<ge> 0 then ''fa-arrow-up'' else ''fa-arrow-down'')
      in [[''stock-card''], [''stock-card-header''], [''stock-info''], [], [''company-name''],
          [''stock-price''], [''current-price''], [''price-change'', changeClass],
          [''fas'', changeIcon], [''stock-mini-chart''], [''stock-metrics''],
          [''metric''], [''metric-label''], [''metric-value''],
          [''metric''], [''metric-label''], [''metric-value'']])"

definition createActiveStockCard :: "market_stock \<Rightarrow> element list" where
  "createActiveStockCard stock =
     (let changeClass = (if m_change stock \<ge> 0 then ''positive'' else ''negative'');
          changeIcon = (if m_change stock \<ge> 0 then ''fa-arrow-up'' else ''fa-arrow-down'')
      in [[''active-stock-card''], [''active-stock-header''], [''stock-info''], [],
          [''company-name''], [''volume-indicator''], [''stock-price''], [''current-price''],
          [''price-change'', changeClass], [''fas'', changeIcon],
          [''stock-mini-chart-enhanced''], [''stock-metrics''],
          [''metric''], [''metric-label''], [''metric-value''],
          [''metric''], [''metric-label''], [''metric-value'']])"

text \<open>
  The three market lists of \<^verbatim>\<open>this.marketData\<close>. Its fourth entry, \<^verbatim>\<open>profitloss\<close>, has
  records of another shape and fills \<^verbatim>\<open>profitLossCarousel\<close>, for which
  \<^verbatim>\<open>carouselPositions\<close> has no entry; it is left out.
\<close>

record market_data =
  bullish :: "market_stock list"
  trending :: "market_stock list"
  bearish :: "market_stock list"

text \<open>
  \<^verbatim>\<open>populateActiveStocksCarousel()\<close> and the general branch of \<^verbatim>\<open>populateCarousels()\<close>:
  when the container exists its content is replaced by one card for each stock.
\<close>

definition populateActiveStocksCarousel :: "market_stock list \<Rightarrow> document \<Rightarrow> document" where
  "populateActiveStocksCarousel stocks doc =
     (case doc ''trendingCarousel'' of
        None \<Rightarrow> doc
      | Some old \<Rightarrow> doc(''trendingCarousel'' := Some (concat (map createActiveStockCard stocks))))"

definition populate_type :: "string \<Rightarrow> market_data \<Rightarrow> market_stock list \<Rightarrow> document \<Rightarrow> document" where
  "populate_type type md stocks doc =
     (if type = ''trending'' then populateActiveStocksCarousel (trending md) doc
      else (case doc (type @ ''Carousel'') of
              None \<Rightarrow> doc
            | Some old \<Rightarrow> doc(type @ ''Carousel'' := Some (concat (map createStockCard stocks)))))"

definition populateCarousels :: "market_data \<Rightarrow> document \<Rightarrow> document" where
  "populateCarousels md doc =
     populate_type ''bearish'' md (bearish md)
       (populate_type ''trending'' md (trending md)
          (populate_type ''bullish'' md (bullish md) doc))"

text \<open>The market data that \<^verbatim>\<open>loadMarketData()\<close> assigns.\<close>

definition demo_marketData :: market_data where
  "demo_marketData =
     \<lparr>bullish =
        [\<lparr>m_symbol = ''NVDA'', m_name = ''NVIDIA Corporation'', m_price = 875.28,
          m_change = 8.45, m_changePercent = 0.97, m_volume = 45000000\<rparr>,
         \<lparr>m_symbol = ''TSLA'', m_name = ''Tesla, Inc.'', m_price = 248.50,
          m_change = 15.75, m_changePercent = 6.77, m_volume = 85000000\<rparr>,
         \<lparr>m_symbol = ''AMD'', m_name = ''Advanced Micro Devices'', m_price = 138.92,
          m_change = 7.23, m_changePercent = 5.49, m_volume = 55000000\<rparr>,
         \<lparr>m_symbol = ''PLTR'', m_name = ''Palantir Technologies'', m_price = 24.67,
          m_change = 1.45, m_changePercent = 6.25, m_volume = 78000000\<rparr>,
         \<lparr>m_symbol = ''COIN'', m_name = ''Coinbase Global'', m_price = 165.43,
          m_change = 8.92, m_changePercent = 5.70, m_volume = 23000000\<rparr>],
      trending =
        [\<lparr>m_symbol = ''AAPL'', m_name = ''Apple Inc.'', m_price = 175.84,
          m_change = 2.45, m_changePercent = 1.41, m_volume = 125000000\<rparr>,
         \<lparr>m_symbol = ''MSFT'', m_name = ''Microsoft Corporation'', m_price = 378.85,
          m_change = 4.67, m_changePercent = 1.25, m_volume = 98000000\<rparr>,
         \<lparr>m_symbol = ''GOOGL'', m_name = ''Alphabet Inc.'', m_price = 142.56,
          m_change = - 1.23, m_changePercent = - 0.85, m_volume = 87000000\<rparr>,
         \<lparr>m_symbol = ''AMZN'', m_name = ''Amazon.com, Inc.'', m_price = 155.89,
          m_change = 1.89, m_changePercent = 1.23, m_volume = 76000000\<rparr>,
         \<lparr>m_symbol = ''META'', m_name = ''Meta Platforms, Inc.'', m_price = 298.45,
          m_change = 3.21, m_changePercent = 1.09, m_volume = 69000000\<rparr>],
      bearish =
        [\<lparr>m_symbol = ''NFLX'', m_name = ''Netflix, Inc.'', m_price = 412.34,
          m_change = - 18.45, m_changePercent = - 4.28, m_volume = 35000000\<rparr>,
         \<lparr>m_symbol = ''PYPL'', m_name = ''PayPal Holdings'', m_price = 58.92,
          m_change = - 3.67, m_changePercent = - 5.87, m_volume = 28000000\<rparr>,
         \<lparr>m_symbol = ''SNAP'', m_name = ''Snap Inc.'', m_price = 11.23,
          m_change = - 0.87, m_changePercent = - 7.19, m_volume = 67000000\<rparr>,
         \<lparr>m_symbol = ''UBER'', m_name = ''Uber Technologies'', m_price = 62.45,
          m_change = - 2.34, m_changePercent = - 3.61, m_volume = 41000000\<rparr>,
         \<lparr>m_symbol = ''TWTR'', m_name = ''Twitter Inc.'', m_price = 34.56,
          m_change = - 1.89, m_changePercent = - 5.18, m_volume = 52000000\<rparr>]\<rparr>"

text \<open>
  A page with the three carousel containers that the code looks up by id, still empty.
  The markup of the page is not part of the sources; the theorems take the document as a
  parameter and use this one as an instance.
\<close>

definition carousel_page :: document where
  "carousel_page ident =
     (if ident = ''bullishCarousel'' \<or> ident = ''trendingCarousel''
         \<or> ident = ''bearishCarousel''
      then Some [] else None)"

text \<open>
  \<^verbatim>\<open>moveCarousel(type, direction)\<close>. \<open>carouselPositions\<close> maps a carousel type to its
  stored position; \<open>None\<close> is an entry that is missing or \<^verbatim>\<open>NaN\<close> (adding to it gives
  \<^verbatim>\<open>NaN\<close>, which fails both boundary comparisons and is stored back).
\<close>

type_synonym positions = "string \<Rightarrow> int option"

definition cardWidth :: int where
  "cardWidth = 280 + 24"

definition moveCarousel :: "document \<Rightarrow> string \<Rightarrow> int \<Rightarrow> positions \<Rightarrow> positions" where
  "moveCarousel doc type direction carouselPositions =
     (case doc (type @ ''Carousel'') of
        None \<Rightarrow> carouselPositions
      | Some carousel \<Rightarrow>
          (let cards = querySelectorAll_class ''stock-card'' carousel;
               maxPosition = - (int (length cards) - 3) * cardWidth
           in (case carouselPositions type of
                 None \<Rightarrow> carouselPositions
               | Some p \<Rightarrow>
                   (let p1 = p + direction * cardWidth;
                        p2 = (if p1 > 0 then 0 else p1);
                        p3 = (if p2 < maxPosition then maxPosition else p2)
                    in carouselPositions(type := Some p3)))))"

text \<open>A sequence of calls, each with its carousel type and direction.\<close>

fun moves :: "document \<Rightarrow> (string \<times> int) list \<Rightarrow> positions \<Rightarrow> positions" where
  "moves doc [] ps = ps"
| "moves doc ((t, d) # ms) ps = moves doc ms (moveCarousel doc t d ps)"

text \<open>The number of elements that \<^verbatim>\<open>moveCarousel\<close> counts as the cards of a carousel.\<close>

definition counted_cards :: "document \<Rightarrow> string \<Rightarrow> nat option" where
  "counted_cards doc type =
     map_option (\<lambda>carousel. length (querySelectorAll_class ''stock-card'' carousel))
       (doc (type @ ''Carousel''))"

definition in_bounds :: "nat \<Rightarrow> int option \<Rightarrow> bool" where
  "in_bounds n pos = (case pos of None \<Rightarrow> False
                      | Some p \<Rightarrow> - (int n - 3) * 304 \<le> p \<and> p \<le> 0)"

subsection \<open>Series generators\<close>

text \<open>
  A point of a price series. \<open>date\<close> is a timestamp in milliseconds; \<open>volume\<close> is \<open>None\<close>
  for the points of \<^verbatim>\<open>generatePriceData\<close>, which have no such property.
\<close>

record price_point =
  date :: int
  price :: real
  volume :: "int option"

text \<open>
  The loop of \<^verbatim>\<open>generateHistoricalPrices(currentPrice, days)\<close>: \<open>i\<close> is the loop counter,
  \<open>k\<close> the number of draws made so far, \<open>p\<close> the running \<^verbatim>\<open>price\<close>, \<open>data\<close> the array
  built so far. Each round draws four times: volatility, trend, change, volume.
  \<open>now\<close> is the value of \<^verbatim>\<open>Date.now()\<close>.
\<close>

function hist_loop ::
  "rng \<Rightarrow> int \<Rightarrow> real \<Rightarrow> int \<Rightarrow> int \<Rightarrow> nat \<Rightarrow> real \<Rightarrow> price_point list \<Rightarrow> price_point list" where
  "hist_loop rnd now currentPrice days i k p data =
     (if i < days then
        (let volatility = 0.02 + rnd k * 0.03;
             trend = (rnd (k + 1) - 0.5) * 0.01;
             change = (rnd (k + 2) - 0.5) * volatility + trend;
             p1 = p * (1 + change);
             p2 = max p1 (currentPrice * 0.5);
             point = \<lparr>date = now - (days - i) * 24 * 60 * 60 * 1000,
                      price = round2 p2,
                      volume = Some (\<lfloor>rnd (k + 3) * 50000000\<rfloor> + 10000000)\<rparr>
         in hist_loop rnd now currentPrice days (i + 1) (k + 4) p2 (data @ [point]))
      else data)"
  by pat_completeness auto
termination
  by (relation "measure (\<lambda>(rnd, now, currentPrice, days, i, k, p, data). nat (days - i))") auto

text \<open>
  \<^verbatim>\<open>data[data.length - 1].price = currentPrice\<close>: on an empty array \<^verbatim>\<open>data[-1]\<close> is
  \<^verbatim>\<open>undefined\<close> and the assignment throws.
\<close>

definition set_last_price :: "real \<Rightarrow> price_point list \<Rightarrow> error + price_point list" where
  "set_last_price currentPrice data =
     (if data = [] then Inl TypeError
      else Inr (data[length data - 1 := (data ! (length data - 1))\<lparr>price := currentPrice\<rparr>]))"

definition generateHistoricalPrices :: "rng \<Rightarrow> int \<Rightarrow> real \<Rightarrow> int \<Rightarrow> error + price_point list" where
  "generateHistoricalPrices rnd now currentPrice days =
     (let p0 = currentPrice * (0.85 + rnd 0 * 0.3);
          data = hist_loop rnd now currentPrice days 0 1 p0 []
      in set_last_price currentPrice data)"

text \<open>\<^verbatim>\<open>generatePriceData(currentPrice, days)\<close>: one draw a round, no rounding, no clamp.\<close>

function price_loop ::
  "rng \<Rightarrow> int \<Rightarrow> int \<Rightarrow> int \<Rightarrow> nat \<Rightarrow> real \<Rightarrow> price_point list \<Rightarrow> price_point list" where
  "price_loop rnd now days i k p data =
     (if i < days then
        (let change = (rnd k - 0.5) * 0.05;
             p1 = p * (1 + change);
             point = \<lparr>date = now - (days - i) * 24 * 60 * 60 * 1000,
                      price = p1, volume = None\<rparr>
         in price_loop rnd now days (i + 1) (k + 1) p1 (data @ [point]))
      else data)"
  by pat_completeness auto
termination
  by (relation "measure (\<lambda>(rnd, now, days, i, k, p, data). nat (days - i))") auto

definition generatePriceData :: "rng \<Rightarrow> int \<Rightarrow> real \<Rightarrow> int \<Rightarrow> error + price_point list" where
  "generatePriceData rnd now currentPrice days =
     (let p0 = currentPrice * 0.9;
          data = price_loop rnd now days 0 0 p0 []
      in set_last_price currentPrice data)"

subsection \<open>Demo quotes\<close>

text \<open>
  The object returned by \<^verbatim>\<open>getDemoStockData(symbol)\<close>, without its formatted strings
  (\<^verbatim>\<open>marketCap\<close>, \<^verbatim>\<open>timestamp\<close>, \<^verbatim>\<open>revenue\<close>, \<^verbatim>\<open>netProfit\<close>, \<^verbatim>\<open>profitMargin\<close>); the
  draws made for them are still counted.
\<close>

record quote =
  q_symbol :: string
  q_name :: string
  q_price :: real
  q_change :: real
  q_changePercent :: real
  q_open :: real
  q_high :: real
  q_low :: real
  q_previousClose :: real
  q_volume :: int
  q_historicalPrices :: "price_point list"

definition companyNames :: "(string \<times> string) list" where
  "companyNames =
     [(''AAPL'', ''Apple Inc.''), (''GOOGL'', ''Alphabet Inc.''),
      (''MSFT'', ''Microsoft Corporation''), (''TSLA'', ''Tesla, Inc.''),
      (''AMZN'', ''Amazon.com, Inc.''), (''META'', ''Meta Platforms, Inc.''),
      (''NVDA'', ''NVIDIA Corporation''), (''NFLX'', ''Netflix, Inc.''),
      (''AMD'', ''Advanced Micro Devices, Inc.''), (''INTC'', ''Intel Corporation''),
      (''UBER'', ''Uber Technologies, Inc.''), (''SNAP'', ''Snap Inc.''),
      (''PYPL'', ''PayPal Holdings, Inc.''), (''SQ'', ''Block, Inc.''),
      (''ZOOM'', ''Zoom Video Communications'')]"

definition basePrices :: "(string \<times> real) list" where
  "basePrices =
     [(''AAPL'', 180), (''GOOGL'', 140), (''MSFT'', 380), (''TSLA'', 250), (''AMZN'', 160),
      (''META'', 300), (''NVDA'', 450), (''NFLX'', 400), (''AMD'', 140), (''INTC'', 50),
      (''UBER'', 65), (''SNAP'', 12), (''PYPL'', 60), (''SQ'', 80), (''ZOOM'', 70)]"

text \<open>
  \<^verbatim>\<open>basePrices[symbol] || (Math.random() * 150 + 50)\<close> draws only for a symbol that is
  not in the table (no price of the table is zero). The result is the base price and
  the number of draws made. In \<^verbatim>\<open>changePercent\<close> the divisor \<^verbatim>\<open>currentPrice - change\<close>
  is at least 0.91 times the base price for draws in \<open>[0, 1)\<close>, so the division is the
  real one.
\<close>

definition base_price :: "rng \<Rightarrow> string \<Rightarrow> real \<times> nat" where
  "base_price rnd symbol =
     (case map_of basePrices symbol of
        Some b \<Rightarrow> (b, 0)
      | None \<Rightarrow> (rnd 0 * 150 + 50, 1))"

definition getDemoStockData :: "rng \<Rightarrow> int \<Rightarrow> string \<Rightarrow> error + quote" where
  "getDemoStockData rnd now symbol =
     (let (basePrice, k) = base_price rnd symbol;
          variance = basePrice * 0.1;
          currentPrice = basePrice + (rnd k - 0.5) * variance;
          change = (rnd (k + 1) - 0.5) * (basePrice * 0.08);
          changePercent = (change / (currentPrice - change)) * 100;
          open = currentPrice + (rnd (k + 2) - 0.5) * (basePrice * 0.03);
          high = max currentPrice open + rnd (k + 3) * (basePrice * 0.02);
          low = min currentPrice open - rnd (k + 4) * (basePrice * 0.02);
          previousClose = currentPrice - change;
          vol = \<lfloor>rnd (k + 5) * 80000000\<rfloor> + 5000000
      in (case generateHistoricalPrices (\<lambda>j. rnd (k + 10 + j)) now currentPrice 30 of
            Inl e \<Rightarrow> Inl e
          | Inr hist \<Rightarrow>
              Inr \<lparr>q_symbol = symbol,
                   q_name = (case map_of companyNames symbol of
                               Some n \<Rightarrow> n | None \<Rightarrow> symbol @ '' Corporation''),
                   q_price = round2 currentPrice,
                   q_change = round2 change,
                   q_changePercent = round2 changePercent,
                   q_open = round2 open,
                   q_high = round2 high,
                   q_low = round2 low,
                   q_previousClose = round2 previousClose,
                   q_volume = vol,
                   q_historicalPrices = hist\<rparr>))"

subsection \<open>Moving average\<close>

text \<open>\<^verbatim>\<open>data[j]\<close> for an integer \<open>j\<close>: \<^verbatim>\<open>undefined\<close> outside the array.\<close>

definition at_index :: "'a list \<Rightarrow> int \<Rightarrow> 'a option" where
  "at_index xs j = (if 0 \<le> j \<and> j < int (length xs) then Some (xs ! nat j) else None)"

text \<open>
  The inner loop of \<^verbatim>\<open>calculateMovingAverage\<close>: \<^verbatim>\<open>sum += data[j].price\<close> for \<open>j\<close> up
  to \<open>i\<close>; reading \<^verbatim>\<open>.price\<close> of \<^verbatim>\<open>undefined\<close> throws.
\<close>

function ma_sum :: "price_point list \<Rightarrow> int \<Rightarrow> int \<Rightarrow> real \<Rightarrow> error + real" where
  "ma_sum data j i s =
     (if j \<le> i then
        (case at_index data j of
           None \<Rightarrow> Inl TypeError
         | Some d \<Rightarrow> ma_sum data (j + 1) i (s + price d))
      else Inr s)"
  by pat_completeness auto
termination
  by (relation "measure (\<lambda>(data, j, i, s). nat (i + 1 - j))") auto

text \<open>The outer loop; \<open>None\<close> in the result is \<^verbatim>\<open>null\<close>.\<close>

function ma_loop ::
  "price_point list \<Rightarrow> int \<Rightarrow> int \<Rightarrow> jsnum option list \<Rightarrow> error + jsnum option list" where
  "ma_loop data period i result =
     (if i < int (length data) then
        (if i < period - 1 then ma_loop data period (i + 1) (result @ [None])
         else
           (case ma_sum data (i - period + 1) i 0 of
              Inl e \<Rightarrow> Inl e
            | Inr s \<Rightarrow>
                ma_loop data period (i + 1)
                  (result @ [Some (jdiv (Fin s) (Fin (real_of_int period)))])))
      else Inr result)"
  by pat_completeness auto
termination
  by (relation "measure (\<lambda>(data, period, i, result). nat (int (length data) - i))") auto

definition calculateMovingAverage :: "price_point list \<Rightarrow> int \<Rightarrow> error + jsnum option list" where
  "calculateMovingAverage data period = ma_loop data period 0 []"

text \<open>The points with the given prices, as a test would write them.\<close>

definition points_of :: "real list \<Rightarrow> price_point list" where
  "points_of ps = map (\<lambda>x. \<lparr>date = 0, price = x, volume = None\<rparr>) ps"

text \<open>The arithmetic mean of the prices at indices \<open>lo\<close> to \<open>hi\<close>, both included.\<close>

definition mean_price :: "price_point list \<Rightarrow> nat \<Rightarrow> nat \<Rightarrow> real" where
  "mean_price data lo hi =
     sum_list (map (\<lambda>k. price (data ! k)) [lo..<hi + 1]) / real (hi + 1 - lo)"

declare hist_loop.simps [simp del]
declare price_loop.simps [simp del]
declare ma_sum.simps [simp del]
declare ma_loop.simps [simp del]

text \<open>The stored price of point \<open>i\<close> of a generated series, if there is one.\<close>

definition stored_price :: "error + price_point list \<Rightarrow> nat \<Rightarrow> real option" where
  "stored_price r i =
     (case r of Inl e \<Rightarrow> None
      | Inr data \<Rightarrow> if i < length data then Some (price (data ! i)) else None)"

text \<open>
  A sequence of draws, all in \<open>[0, 1)\<close>, that drives the historical walk down by 2.5
  percent a day: every volatility draw is 2/3 and every other draw is 0.
\<close>

definition falling_draws :: rng where
  "falling_draws k = (if k mod 4 = 1 then 2 / 3 else 0)"

text \<open>The three stored fields of a quote that the change invariant relates.\<close>

definition change_fields :: "error + quote \<Rightarrow> (real \<times> real \<times> real) option" where
  "change_fields r =
     (case r of Inl e \<Rightarrow> None
      | Inr q \<Rightarrow> Some (q_price q, q_change q, q_previousClose q))"

text \<open>
  Draws in \<open>[0, 1)\<close> for which a known symbol's price is 0.007 and its change 0.004
  above the values that the draws 1/2 give.
\<close>

definition cent_draws :: rng where
  "cent_draws k = (if k = 0 then 5014 / 10000 else if k = 1 then 501 / 1000 else 0)"

text \<open>
  The entry that the specification gives the moving average at index \<open>n\<close>: undefined
  below \<open>period - 1\<close>, from there on the mean of the trailing \<open>period\<close> prices.
\<close>

definition ma_entry :: "price_point list \<Rightarrow> int \<Rightarrow> nat \<Rightarrow> jsnum option" where
  "ma_entry data period n =
     (if int n < period - 1 then None
      else Some (Fin (mean_price data (n + 1 - nat period) n)))"

subsection \<open>Watchlist\<close>

record watchlist_item =
  w_symbol :: string
  w_name :: string
  w_addedAt :: string
  w_price :: real
  w_change :: real
  w_changePercent :: real

text \<open>
  The state that \<^verbatim>\<open>addToWatchlist\<close> and \<^verbatim>\<open>removeFromWatchlist\<close> read and write:
  the fields \<^verbatim>\<open>currentStock\<close> and \<^verbatim>\<open>watchlist\<close> of the analyzer, the value stored under
  the key \<^verbatim>\<open>stockWatchlist\<close> of \<^verbatim>\<open>localStorage\<close> (\<open>None\<close>: no such key), the calls of
  \<^verbatim>\<open>showNotification\<close> as (message, type), and the calls of \<^verbatim>\<open>console.warn\<close>.
  \<^verbatim>\<open>updateWatchlistButton\<close> and \<^verbatim>\<open>loadWatchlist\<close> only rebuild the page from the list and
  are left out, as are \<^verbatim>\<open>console.log\<close> and \<^verbatim>\<open>console.error\<close>.
\<close>

record analyzer =
  currentStock :: "quote option"
  watchlist :: "watchlist_item list"
  storage :: "watchlist_item list option"
  notifications :: "(string \<times> string) list"
  warnings :: "string list"

definition showNotification :: "string \<Rightarrow> string \<Rightarrow> analyzer \<Rightarrow> analyzer" where
  "showNotification message type st = st\<lparr>notifications := notifications st @ [(message, type)]\<rparr>"

text \<open>\<^verbatim>\<open>Array.prototype.findIndex\<close>: the first index whose element satisfies \<open>P\<close>, or \<open>-1\<close>.\<close>

fun findIndex_from :: "('a \<Rightarrow> bool) \<Rightarrow> 'a list \<Rightarrow> int \<Rightarrow> int" where
  "findIndex_from P [] i = - 1"
| "findIndex_from P (x # xs) i = (if P x then i else findIndex_from P xs (i + 1))"

definition findIndex :: "('a \<Rightarrow> bool) \<Rightarrow> 'a list \<Rightarrow> int" where
  "findIndex P xs = findIndex_from P xs 0"

text \<open>
  \<^verbatim>\<open>addToWatchlist()\<close>. \<open>nowISO\<close> is \<^verbatim>\<open>new Date().toISOString()\<close>; \<open>write_ok\<close> says
  whether \<^verbatim>\<open>localStorage.setItem\<close> succeeds (it throws when the quota is exceeded).
\<close>

definition addToWatchlist :: "string \<Rightarrow> bool \<Rightarrow> analyzer \<Rightarrow> analyzer" where
  "addToWatchlist nowISO write_ok st =
     (case currentStock st of
        None \<Rightarrow> st
      | Some cs \<Rightarrow>
          (let symbol = q_symbol cs;
               existingIndex = findIndex (\<lambda>stock. w_symbol stock = symbol) (watchlist st)
           in if existingIndex \<noteq> - 1 then
                showNotification (symbol @ '' is already in your watchlist'') ''warning'' st
              else
                (let watchlistItem =
                       \<lparr>w_symbol = symbol, w_name = q_name cs, w_addedAt = nowISO,
                        w_price = q_price cs, w_change = q_change cs,
                        w_changePercent = q_changePercent cs\<rparr>;
                     st1 = st\<lparr>watchlist := watchlist st @ [watchlistItem]\<rparr>
                 in if write_ok then
                      showNotification (symbol @ '' added to watchlist'') ''success''
                        (st1\<lparr>storage := Some (watchlist st1)\<rparr>)
                    else showNotification ''Failed to save to watchlist'' ''error'' st1)))"

definition removeFromWatchlist :: "string \<Rightarrow> bool \<Rightarrow> analyzer \<Rightarrow> analyzer" where
  "removeFromWatchlist symbol write_ok st =
     (let initialLength = length (watchlist st);
          st1 = st\<lparr>watchlist := filter (\<lambda>stock. w_symbol stock \<noteq> symbol) (watchlist st)\<rparr>
      in if length (watchlist st1) = initialLength then
           st1\<lparr>warnings := warnings st1 @ [''Stock '' @ symbol @ '' not found in watchlist'']\<rparr>
         else if write_ok then
           showNotification (symbol @ '' removed from watchlist'') ''success''
             (st1\<lparr>storage := Some (watchlist st1)\<rparr>)
         else showNotification ''Failed to remove from watchlist'' ''error'' st1)"

text \<open>The number of entries of a watchlist with a given symbol.\<close>

definition entries_for :: "string \<Rightarrow> watchlist_item list \<Rightarrow> nat" where
  "entries_for symbol wl = length (filter (\<lambda>stock. w_symbol stock = symbol) wl)"

text \<open>A quote, watchlist entries and an analyzer state to run the two operations on.\<close>

definition sample_quote :: quote where
  "sample_quote =
     \<lparr>q_symbol = ''AAPL'', q_name = ''Apple Inc.'', q_price = 175.84, q_change = 2.45,
      q_changePercent = 1.41, q_open = 174, q_high = 176.5, q_low = 173.2,
      q_previousClose = 173.39, q_volume = 52000000, q_historicalPrices = []\<rparr>"

definition sample_item :: "string \<Rightarrow> watchlist_item" where
  "sample_item s =
     \<lparr>w_symbol = s, w_name = s @ '' Corporation'', w_addedAt = ''2024-01-01T00:00:00.000Z'',
      w_price = 100, w_change = 1, w_changePercent = 1\<rparr>"

definition sample_state :: "watchlist_item list \<Rightarrow> analyzer" where
  "sample_state wl =
     \<lparr>currentStock = Some sample_quote, watchlist = wl, storage = None,
      notifications = [], warnings = []\<rparr>"

subsection \<open>Chart renderers\<close>

text \<open>
  The calls made on the 2D context. A gradient made by \<^verbatim>\<open>createLinearGradient\<close> and its
  colour stops is the style it is assigned as. \<open>Arc x y r\<close> is the full circle
  \<^verbatim>\<open>arc(x, y, r, 0, 2 * Math.PI)\<close>.
\<close>

datatype style = Color string | LinearGradient real real real real "(real \<times> string) list"

datatype cmd =
    ClearRect real real real real
  | SetFillStyle style
  | SetStrokeStyle string
  | SetLineWidth real
  | BeginPath
  | MoveTo jsnum jsnum
  | LineTo jsnum jsnum
  | ClosePath
  | Fill
  | Stroke
  | Arc jsnum jsnum real
  | FillRect jsnum jsnum jsnum jsnum

text \<open>What a renderer did: the calls it made, and the exception that ended it, if any.\<close>

type_synonym rendering = "cmd list \<times> error option"

text \<open>
  The two coordinate expressions that every line renderer repeats:
  \<^verbatim>\<open>padding + (index / (data.length - 1)) * chartWidth\<close> and
  \<^verbatim>\<open>padding + (1 - (point.price - minPrice) / priceRange) * chartHeight\<close>.
\<close>

definition xCoord :: "real \<Rightarrow> real \<Rightarrow> nat \<Rightarrow> nat \<Rightarrow> jsnum" where
  "xCoord padding chartWidth len index =
     jadd (Fin padding)
       (jmul (jdiv (Fin (real index)) (Fin (real_of_int (int len - 1)))) (Fin chartWidth))"

definition yCoord :: "real \<Rightarrow> real \<Rightarrow> jsnum \<Rightarrow> jsnum \<Rightarrow> real \<Rightarrow> jsnum" where
  "yCoord padding chartHeight minPrice priceRange v =
     jadd (Fin padding)
       (jmul (jsub (Fin 1) (jdiv (jsub (Fin v) minPrice) priceRange)) (Fin chartHeight))"

text \<open>
  \<^verbatim>\<open>data.forEach((point, index) => { ... index === 0 ? moveTo(x, y) : lineTo(x, y) })\<close>
  over the values of the points.
\<close>

definition trace_line :: "real \<Rightarrow> real \<Rightarrow> real \<Rightarrow> jsnum \<Rightarrow> jsnum \<Rightarrow> real list \<Rightarrow> cmd list" where
  "trace_line padding chartWidth chartHeight minPrice priceRange vals =
     map (\<lambda>(index, v).
            (let x = xCoord padding chartWidth (length vals) index;
                 y = yCoord padding chartHeight minPrice priceRange v
             in if index = 0 then MoveTo x y else LineTo x y))
         (enumerate 0 vals)"

text \<open>\<^verbatim>\<open>drawStockLineChart(ctx, data, width, height)\<close>.\<close>

definition drawStockLineChart :: "price_point list \<Rightarrow> real \<Rightarrow> real \<Rightarrow> rendering" where
  "drawStockLineChart data width height =
     (let padding = 20;
          chartWidth = width - 2 * padding;
          chartHeight = height - 2 * padding;
          cleared = [ClearRect 0 0 width height]
      in if data = [] then (cleared, None)
         else
           (let prices = map price data;
                minPrice = Math_min prices;
                maxPrice = Math_max prices;
                priceRange = jor (jsub maxPrice minPrice) (Fin 1);
                gradient = LinearGradient 0 padding 0 (height - padding)
                             [(0, ''rgba(139, 92, 246, 0.3)''), (1, ''rgba(139, 92, 246, 0.05)'')];
                line = trace_line padding chartWidth chartHeight minPrice priceRange prices;
                lastPoint = data ! (length data - 1);
                lastX = padding + chartWidth;
                lastY = yCoord padding chartHeight minPrice priceRange (price lastPoint)
            in (cleared
                @ [SetFillStyle gradient, BeginPath] @ line
                @ [LineTo (Fin (padding + chartWidth)) (Fin (height - padding)),
                   LineTo (Fin padding) (Fin (height - padding)), ClosePath, Fill,
                   SetStrokeStyle ''#8b5cf6'', SetLineWidth 2, BeginPath] @ line
                @ [Stroke, SetFillStyle (Color ''#8b5cf6''), BeginPath,
                   Arc (Fin lastX) lastY 4, Fill],
                None)))"

text \<open>
  A point of a mini chart: \<^verbatim>\<open>{ value, volume }\<close>, where \<^verbatim>\<open>generateMiniChartData\<close>
  leaves \<^verbatim>\<open>volume\<close> out (\<open>None\<close>).
\<close>

record mini_point =
  val :: real
  vol :: "real option"

text \<open>
  \<^verbatim>\<open>values[values.length - 1] >= values[0]\<close>: on an empty array both sides are
  \<^verbatim>\<open>undefined\<close> and the comparison is false.
\<close>

definition isPositive :: "real list \<Rightarrow> bool" where
  "isPositive values = (if values = [] then False else values ! (length values - 1) \<ge> values ! 0)"

text \<open>\<^verbatim>\<open>drawMiniChart(ctx, data, width, height)\<close>.\<close>

definition drawMiniChart :: "mini_point list \<Rightarrow> real \<Rightarrow> real \<Rightarrow> rendering" where
  "drawMiniChart data width height =
     (let padding = 5;
          chartWidth = width - 2 * padding;
          chartHeight = height - 2 * padding;
          values = map val data;
          minValue = Math_min values;
          maxValue = Math_max values;
          range = jor (jsub maxValue minValue) (Fin 1);
          lineColor = (if isPositive values then ''#10b981'' else ''#ef4444'');
          fillColor = (if isPositive values then ''rgba(16, 185, 129, 0.1)''
                       else ''rgba(239, 68, 68, 0.1)'');
          gradient = LinearGradient 0 padding 0 (height - padding)
                       [(0, fillColor), (1, ''transparent'')];
          line = trace_line padding chartWidth chartHeight minValue range values
      in ([ClearRect 0 0 width height, SetFillStyle gradient, BeginPath] @ line
          @ [LineTo (Fin (padding + chartWidth)) (Fin (height - padding)),
             LineTo (Fin padding) (Fin (height - padding)), ClosePath, Fill,
             SetStrokeStyle lineColor, SetLineWidth 2, BeginPath] @ line
          @ [Stroke],
          None))"

text \<open>
  \<^verbatim>\<open>d.volume || Math.random() * 100\<close> for each point in turn: a draw is made only for a
  point whose volume is missing or zero. \<open>k\<close> counts the draws; the result is the values
  and the counter after them.
\<close>

fun volumes_from :: "rng \<Rightarrow> nat \<Rightarrow> mini_point list \<Rightarrow> real list \<times> nat" where
  "volumes_from rnd k [] = ([], k)"
| "volumes_from rnd k (d # ds) =
     (case vol d of
        Some v \<Rightarrow>
          (if v \<noteq> 0 then (let (vs, k') = volumes_from rnd k ds in (v # vs, k'))
           else (let (vs, k') = volumes_from rnd (k + 1) ds in (rnd k * 100 # vs, k')))
      | None \<Rightarrow> (let (vs, k') = volumes_from rnd (k + 1) ds in (rnd k * 100 # vs, k')))"

text \<open>The volume bars of \<^verbatim>\<open>drawEnhancedMiniChart\<close>, one \<^verbatim>\<open>fillRect\<close> a point.\<close>

definition volume_bars ::
  "real \<Rightarrow> real \<Rightarrow> real \<Rightarrow> real \<Rightarrow> jsnum \<Rightarrow> real list \<Rightarrow> cmd list" where
  "volume_bars padding chartWidth volumeY volumeHeight maxVolume vs =
     map (\<lambda>(index, v).
            (let x = xCoord padding chartWidth (length vs) index;
                 barHeight = jmul (jdiv (Fin v) maxVolume) (Fin volumeHeight);
                 barWidth = chartWidth / real (length vs) * 0.8
             in FillRect (jsub x (Fin (barWidth / 2)))
                         (jsub (Fin (volumeY + volumeHeight)) barHeight)
                         (Fin barWidth) barHeight))
         (enumerate 0 vs)"

text \<open>
  \<^verbatim>\<open>drawEnhancedMiniChart(ctx, data, width, height)\<close>. After the last stroke the code
  reads \<^verbatim>\<open>data[data.length - 1].value\<close>, which throws on an empty array.
\<close>

definition drawEnhancedMiniChart :: "rng \<Rightarrow> mini_point list \<Rightarrow> real \<Rightarrow> real \<Rightarrow> rendering" where
  "drawEnhancedMiniChart rnd data width height =
     (let padding = 10;
          chartWidth = width - 2 * padding;
          chartHeight = height - 2 * padding - 20;
          values = map val data;
          (volumes, k) = volumes_from rnd 0 data;
          minValue = Math_min values;
          maxValue = Math_max values;
          range = jor (jsub maxValue minValue) (Fin 1);
          maxVolume = Math_max volumes;
          lineColor = (if isPositive values then ''#10b981'' else ''#ef4444'');
          fillColor = (if isPositive values then ''rgba(16, 185, 129, 0.2)''
                       else ''rgba(239, 68, 68, 0.2)'');
          volumeHeight = 15;
          volumeY = height - volumeHeight - 5;
          bars = volume_bars padding chartWidth volumeY volumeHeight maxVolume
                   (fst (volumes_from rnd k data));
          gradient = LinearGradient 0 padding 0 (padding + chartHeight)
                       [(0, fillColor), (1, ''transparent'')];
          line = trace_line padding chartWidth chartHeight minValue range values;
          drawn = [ClearRect 0 0 width height,
                   SetFillStyle (Color ''rgba(156, 163, 175, 0.5)'')] @ bars
                  @ [SetFillStyle gradient, BeginPath] @ line
                  @ [LineTo (Fin (padding + chartWidth)) (Fin (padding + chartHeight)),
                     LineTo (Fin padding) (Fin (padding + chartHeight)), ClosePath, Fill,
                     SetStrokeStyle lineColor, SetLineWidth 2, BeginPath] @ line
                  @ [Stroke]
      in (case at_index data (int (length data) - 1) of
            None \<Rightarrow> (drawn, Some TypeError)
          | Some lastPoint \<Rightarrow>
              (let lastX = padding + chartWidth;
                   lastY = yCoord padding chartHeight minValue range (val lastPoint)
               in (drawn @ [SetFillStyle (Color lineColor), BeginPath,
                            Arc (Fin lastX) lastY 3, Fill],
                   None))))"

text \<open>
  The domain computation at the head of \<^verbatim>\<open>drawComprehensiveChart\<close> (and of
  \<^verbatim>\<open>drawLineChart\<close>): \<^verbatim>\<open>priceRange = maxPrice - minPrice\<close>, with no substitute.
  The result is (\<^verbatim>\<open>minPrice\<close>, \<^verbatim>\<open>maxPrice\<close>, \<^verbatim>\<open>priceRange\<close>).
\<close>

definition comprehensive_domain :: "price_point list \<Rightarrow> jsnum \<times> jsnum \<times> jsnum" where
  "comprehensive_domain priceData =
     (let prices = map price priceData;
          minPrice = Math_min prices;
          maxPrice = Math_max prices;
          priceRange = jsub maxPrice minPrice
      in (minPrice, maxPrice, priceRange))"

text \<open>\<^verbatim>\<open>drawPriceLine(ctx, priceData, padding, chartWidth, chartHeight, minPrice, priceRange)\<close>.\<close>

definition drawPriceLine ::
  "price_point list \<Rightarrow> real \<Rightarrow> real \<Rightarrow> real \<Rightarrow> jsnum \<Rightarrow> jsnum \<Rightarrow> cmd list" where
  "drawPriceLine priceData padding chartWidth chartHeight minPrice priceRange =
     (let gradient = LinearGradient 0 padding 0 (padding + chartHeight)
                       [(0, ''rgba(59, 130, 246, 0.3)''), (1, ''rgba(59, 130, 246, 0.05)'')];
          line = trace_line padding chartWidth chartHeight minPrice priceRange
                   (map price priceData)
      in [SetFillStyle gradient, BeginPath] @ line
         @ [LineTo (Fin (padding + chartWidth)) (Fin (padding + chartHeight)),
            LineTo (Fin padding) (Fin (padding + chartHeight)), ClosePath, Fill,
            SetStrokeStyle ''#3b82f6'', SetLineWidth 2, BeginPath] @ line
         @ [Stroke])"

text \<open>
  The price layer of \<^verbatim>\<open>drawComprehensiveChart(ctx, priceData, width, height, stockData)\<close>:
  its domain computation handed to \<^verbatim>\<open>drawPriceLine\<close>, as the code does. The grid, the
  moving average, the volume bars and the labels are drawn by other calls.
\<close>

definition comprehensive_price_layer :: "price_point list \<Rightarrow> real \<Rightarrow> real \<Rightarrow> cmd list" where
  "comprehensive_price_layer priceData width height =
     (let padding = 60;
          chartWidth = width - 2 * padding;
          chartHeight = height - 2 * padding;
          (minPrice, maxPrice, priceRange) = comprehensive_domain priceData
      in drawPriceLine priceData padding chartWidth chartHeight minPrice priceRange)"

text \<open>The domain computation of the three guarded renderers: \<^verbatim>\<open>maxPrice - minPrice || 1\<close>.\<close>

definition guarded_range :: "real list \<Rightarrow> jsnum" where
  "guarded_range prices = jor (jsub (Math_max prices) (Math_min prices)) (Fin 1)"

text \<open>The second coordinates of the \<^verbatim>\<open>moveTo\<close> and \<^verbatim>\<open>lineTo\<close> calls of a path.\<close>

fun y_of :: "cmd \<Rightarrow> jsnum option" where
  "y_of (MoveTo x y) = Some y"
| "y_of (LineTo x y) = Some y"
| "y_of _ = None"

subsection \<open>Properties of the carousel\<close>

lemma moveCarousel_other:
  "t \<noteq> type \<Longrightarrow> moveCarousel doc type d ps t = ps t"
  by (simp add: moveCarousel_def Let_def split: option.splits)

lemma moveCarousel_bounds:
  assumes "counted_cards doc t = Some n" and "3 \<le> n" and "ps t \<noteq> None"
  shows "in_bounds n (moveCarousel doc t d ps t)"
proof -
  from assms(3) obtain p where p: "ps t = Some p" by auto
  from assms(1) obtain carousel where c: "doc (t @ ''Carousel'') = Some carousel"
    and n: "n = length (querySelectorAll_class ''stock-card'' carousel)"
    by (auto simp: counted_cards_def)
  have "- (int n - 3) * 304 \<le> 0" using assms(2) by simp
  then show ?thesis
    using c p n by (simp add: moveCarousel_def in_bounds_def cardWidth_def Let_def)
qed

lemma moveCarousel_keeps:
  assumes "counted_cards doc t = Some n" and "3 \<le> n" and "in_bounds n (ps t)"
  shows "in_bounds n (moveCarousel doc type d ps t)"
proof (cases "t = type")
  case True
  from assms(3) have "ps t \<noteq> None" by (auto simp: in_bounds_def split: option.splits)
  with assms(1,2) True show ?thesis using moveCarousel_bounds by blast
next
  case False
  then show ?thesis using assms(3) by (simp add: moveCarousel_other)
qed

lemma moves_keep:
  assumes "counted_cards doc t = Some n" and "3 \<le> n"
  shows "in_bounds n (ps t) \<Longrightarrow> in_bounds n (moves doc ms ps t)"
proof (induction ms arbitrary: ps)
  case Nil
  then show ?case by simp
next
  case (Cons m ms)
  obtain ty d where m: "m = (ty, d)" by (cases m)
  have "in_bounds n (moveCarousel doc ty d ps t)"
    using assms Cons.prems by (rule moveCarousel_keeps)
  then show ?case using Cons.IH m by simp
qed

text \<open>
  Where the bound holds: a carousel in which \<^verbatim>\<open>moveCarousel\<close> counts \<open>n \<ge> 3\<close> cards keeps
  a position that starts at 0 within \<open>[-(n - 3) * 304, 0]\<close> under any sequence of calls.
\<close>

lemma counted_carousel_bounded:
  assumes "counted_cards doc t = Some n" and "3 \<le> n" and "ps t = Some 0"
  shows "\<exists>p. moves doc ms ps t = Some p \<and> - (int n - 3) * 304 \<le> p \<and> p \<le> 0"
proof -
  have "in_bounds n (ps t)" using assms(2,3) by (simp add: in_bounds_def)
  with assms(1,2) have "in_bounds n (moves doc ms ps t)" by (rule moves_keep)
  then show ?thesis by (auto simp: in_bounds_def split: option.splits)
qed

text \<open>
  The cards of \<^verbatim>\<open>createStockCard\<close> are counted, one element each; those of
  \<^verbatim>\<open>createActiveStockCard\<close> carry the class \<^verbatim>\<open>active-stock-card\<close> and are not.
\<close>

lemma stock_cards_counted:
  "length (querySelectorAll_class ''stock-card'' (concat (map createStockCard stocks)))
     = length stocks"
  by (induction stocks) (simp_all add: querySelectorAll_class_def createStockCard_def Let_def)

lemma active_cards_not_counted:
  "querySelectorAll_class ''stock-card'' (concat (map createActiveStockCard stocks)) = []"
  by (induction stocks)
     (simp_all add: querySelectorAll_class_def createActiveStockCard_def Let_def)

lemma populated_trending:
  assumes "doc ''trendingCarousel'' \<noteq> None"
  shows "populateCarousels md doc ''trendingCarousel''
           = Some (concat (map createActiveStockCard (trending md)))"
proof -
  let ?d1 = "populate_type ''bullish'' md (bullish md) doc"
  have 1: "?d1 ''trendingCarousel'' \<noteq> None"
    using assms by (simp add: populate_type_def split: option.splits)
  let ?d2 = "populate_type ''trending'' md (trending md) ?d1"
  have 2: "?d2 ''trendingCarousel'' = Some (concat (map createActiveStockCard (trending md)))"
    using 1 by (auto simp: populate_type_def populateActiveStocksCarousel_def)
  then show ?thesis
    by (simp add: populateCarousels_def populate_type_def [of "''bearish''"]
        split: option.splits)
qed

lemma populated_bullish:
  assumes "doc ''bullishCarousel'' \<noteq> None"
  shows "counted_cards (populateCarousels md doc) ''bullish'' = Some (length (bullish md))"
proof -
  let ?d1 = "populate_type ''bullish'' md (bullish md) doc"
  have 1: "?d1 ''bullishCarousel'' = Some (concat (map createStockCard (bullish md)))"
    using assms by (auto simp: populate_type_def)
  let ?d2 = "populate_type ''trending'' md (trending md) ?d1"
  have 2: "?d2 ''bullishCarousel'' = Some (concat (map createStockCard (bullish md)))"
    using 1 by (simp add: populate_type_def populateActiveStocksCarousel_def
        split: option.splits)
  have "populateCarousels md doc ''bullishCarousel''
          = Some (concat (map createStockCard (bullish md)))"
    using 2 by (simp add: populateCarousels_def populate_type_def [of "''bearish''"]
        split: option.splits)
  then show ?thesis by (simp add: counted_cards_def stock_cards_counted)
qed

text \<open>
  C10 against the code. The trending carousel is filled by
  \<^verbatim>\<open>populateActiveStocksCarousel\<close> with cards of class \<^verbatim>\<open>active-stock-card\<close>, which the
  selector \<^verbatim>\<open>.stock-card\<close> of \<^verbatim>\<open>moveCarousel\<close> does not match. However many cards it
  holds, \<^verbatim>\<open>cards.length\<close> is 0 and \<^verbatim>\<open>maxPosition\<close> is +912, so every call on it, forward
  or backward and from any stored position, stores 912, which is above 0 and outside
  \<open>[-(n - 3) * 304, 0]\<close>.
\<close>

theorem trending_position_out_of_bounds:
  assumes "doc ''trendingCarousel'' \<noteq> None" and "ps ''trending'' = Some p"
  shows "moveCarousel (populateCarousels md doc) ''trending'' direction ps ''trending''
           = Some 912
       \<and> \<not> in_bounds (length (trending md)) (Some 912)"
proof -
  have "moveCarousel (populateCarousels md doc) ''trending'' direction ps ''trending''
          = Some 912"
    using populated_trending [where doc = doc and md = md] assms
    by (simp add: moveCarousel_def active_cards_not_counted cardWidth_def Let_def)
  then show ?thesis by (simp add: in_bounds_def)
qed

theorem trending_position_out_of_bounds_witness:
  "carousel_page ''trendingCarousel'' \<noteq> None
   \<and> length (trending demo_marketData) = 5
   \<and> moveCarousel (populateCarousels demo_marketData carousel_page) ''trending'' 1
        (\<lambda>t. Some 0) ''trending'' = Some 912
   \<and> \<not> (- (int 5 - 3) * 304 \<le> (912::int) \<and> (912::int) \<le> 0)"
proof -
  have h: "carousel_page ''trendingCarousel'' \<noteq> None" by (simp add: carousel_page_def)
  have l: "length (trending demo_marketData) = 5" by (simp add: demo_marketData_def)
  from trending_position_out_of_bounds
         [where doc = carousel_page and ps = "\<lambda>t. Some 0" and p = 0
            and md = demo_marketData and direction = 1] h l
  show ?thesis by simp
qed

subsection \<open>Properties of the series generators\<close>

lemma hist_loop_length:
  "length (hist_loop rnd now cp days i k p data) = length data + nat (days - i)"
proof (induction rnd now cp days i k p data rule: hist_loop.induct)
  case (1 rnd now cp days i k p data)
  show ?case
  proof (cases "i < days")
    case True
    then show ?thesis using 1 by (subst hist_loop.simps) (simp add: Let_def)
  next
    case False
    then show ?thesis by (subst hist_loop.simps) simp
  qed
qed

lemma price_loop_length:
  "length (price_loop rnd now days i k p data) = length data + nat (days - i)"
proof (induction rnd now days i k p data rule: price_loop.induct)
  case (1 rnd now days i k p data)
  show ?case
  proof (cases "i < days")
    case True
    then show ?thesis using 1 by (subst price_loop.simps) (simp add: Let_def)
  next
    case False
    then show ?thesis by (subst price_loop.simps) simp
  qed
qed

lemma set_last_price_ok:
  assumes "data \<noteq> []"
  shows "\<exists>r. set_last_price cp data = Inr r \<and> length r = length data
             \<and> price (last r) = cp \<and> (\<forall>i. i + 1 < length data \<longrightarrow> r ! i = data ! i)"
proof -
  let ?r = "data[length data - 1 := (data ! (length data - 1))\<lparr>price := cp\<rparr>]"
  have "set_last_price cp data = Inr ?r" using assms by (simp add: set_last_price_def)
  moreover have "length ?r = length data" by simp
  moreover have "price (last ?r) = cp"
    using assms by (simp add: last_conv_nth)
  moreover have "\<forall>i. i + 1 < length data \<longrightarrow> ?r ! i = data ! i" by simp
  ultimately show ?thesis by blast
qed

text \<open>
  C1. Asked for \<open>days \<ge> 2\<close> points, \<^verbatim>\<open>generateHistoricalPrices\<close> and
  \<^verbatim>\<open>generatePriceData\<close> each return a series of that length whose final point's price is
  exactly the current price that the caller passed, whatever the random draws were.
\<close>

theorem last_price_is_current:
  assumes "2 \<le> days"
  shows "(\<exists>data. generateHistoricalPrices rnd now currentPrice days = Inr data
            \<and> int (length data) = days \<and> price (last data) = currentPrice)
       \<and> (\<exists>data. generatePriceData rnd now currentPrice days = Inr data
            \<and> int (length data) = days \<and> price (last data) = currentPrice)"
proof
  let ?h = "hist_loop rnd now currentPrice days 0 1 (currentPrice * (0.85 + rnd 0 * 0.3)) []"
  have len: "length ?h = nat days" by (simp add: hist_loop_length)
  then have "?h \<noteq> []" using assms by auto
  from set_last_price_ok [OF this, of currentPrice] len assms
  show "\<exists>data. generateHistoricalPrices rnd now currentPrice days = Inr data
            \<and> int (length data) = days \<and> price (last data) = currentPrice"
    by (auto simp: generateHistoricalPrices_def Let_def)
next
  let ?h = "price_loop rnd now days 0 0 (currentPrice * 0.9) []"
  have len: "length ?h = nat days" by (simp add: price_loop_length)
  then have "?h \<noteq> []" using assms by auto
  from set_last_price_ok [OF this, of currentPrice] len assms
  show "\<exists>data. generatePriceData rnd now currentPrice days = Inr data
            \<and> int (length data) = days \<and> price (last data) = currentPrice"
    by (auto simp: generatePriceData_def Let_def)
qed

theorem last_price_is_current_witness:
  "(2::int) \<le> 3
   \<and> (\<exists>data. generateHistoricalPrices (\<lambda>k. 1 / 2) 0 100 3 = Inr data
          \<and> int (length data) = 3 \<and> price (last data) = 100)
   \<and> (\<exists>data. generatePriceData (\<lambda>k. 1 / 2) 0 100 3 = Inr data
          \<and> int (length data) = 3 \<and> price (last data) = 100)"
  using last_price_is_current [of 3 "\<lambda>k. 1 / 2" 0 100] by simp

lemma round2_mono: "x \<le> y \<Longrightarrow> round2 x \<le> round2 y"
  unfolding round2_def Math_round_def
  by (intro divide_right_mono of_int_le_iff[THEN iffD2] floor_mono) auto

lemma round2_lower: "x - 1 / 200 < round2 x"
proof -
  have "x * 100 + 1 / 2 - 1 < real_of_int \<lfloor>x * 100 + 1 / 2\<rfloor>" by linarith
  then show ?thesis unfolding round2_def Math_round_def by simp
qed

lemma round2_upper: "round2 x \<le> x + 1 / 200"
proof -
  have "real_of_int \<lfloor>x * 100 + 1 / 2\<rfloor> \<le> x * 100 + 1 / 2" by linarith
  then show ?thesis unfolding round2_def Math_round_def by simp
qed

lemma hist_loop_floor:
  assumes "\<forall>d \<in> set data. round2 (cp * 0.5) \<le> price d"
  shows "\<forall>d \<in> set (hist_loop rnd now cp days i k p data). round2 (cp * 0.5) \<le> price d"
  using assms
proof (induction rnd now cp days i k p data rule: hist_loop.induct)
  case (1 rnd now cp days i k p data)
  show ?case
  proof (cases "i < days")
    case True
    have step: "round2 (cp * 0.5) \<le> round2 (max q (cp * 0.5))" for q
      by (rule round2_mono) simp
    show ?thesis
      apply (subst hist_loop.simps)
      apply (simp only: True if_True Let_def)
      apply (rule "1.IH"[OF True refl refl refl refl refl refl])
      using "1.prems" step apply auto
      done
  next
    case False
    then show ?thesis using "1.prems" by (subst hist_loop.simps) simp
  qed
qed

lemma generateHistoricalPrices_nth:
  assumes "generateHistoricalPrices rnd now cp days = Inr data" and "i + 1 < length data"
  shows "data ! i \<in> set (hist_loop rnd now cp days 0 1 (cp * (0.85 + rnd 0 * 0.3)) [])"
proof -
  let ?h = "hist_loop rnd now cp days 0 1 (cp * (0.85 + rnd 0 * 0.3)) []"
  have s: "set_last_price cp ?h = Inr data"
    using assms(1) by (simp add: generateHistoricalPrices_def Let_def)
  then have ne: "?h \<noteq> []" by (auto simp: set_last_price_def split: if_splits)
  from s ne have d: "data = ?h[length ?h - 1 := (?h ! (length ?h - 1))\<lparr>price := cp\<rparr>]"
    by (simp add: set_last_price_def)
  then have "length data = length ?h" by simp
  with assms(2) d have "data ! i = ?h ! i" and "i < length ?h" by auto
  then show ?thesis by simp
qed

lemma falling_step:
  assumes "k mod 4 = 1" and "i < days"
  shows "hist_loop falling_draws now cp days i k p data =
         hist_loop falling_draws now cp days (i + 1) (k + 4) (max (p * (39 / 40)) (cp / 2))
           (data @ [\<lparr>date = now - (days - i) * 86400000,
                     price = round2 (max (p * (39 / 40)) (cp / 2)),
                     volume = Some 10000000\<rparr>])"
proof -
  have a: "falling_draws k = 2 / 3" using assms(1) by (simp add: falling_draws_def)
  have b: "falling_draws (k + 1) = 0" "falling_draws (k + 2) = 0" "falling_draws (k + 3) = 0"
    using assms(1) by (simp_all add: falling_draws_def) presburger+
  show ?thesis
    apply (subst hist_loop.simps)
    apply (simp only: assms(2) if_True Let_def a b)
    apply (simp add: algebra_simps)
    done
qed

lemma falling_stop: "\<not> i < days \<Longrightarrow> hist_loop rnd now cp days i k p data = data"
  by (subst hist_loop.simps) simp

lemma falling_run:
  "hist_loop falling_draws 0 (100005 / 1000) 30 0 1 (100005 / 1000 * (0.85 + falling_draws 0 * 0.3)) [] ! 20
     = \<lparr>date = - 864000000, price = 50, volume = Some 10000000\<rparr>"
  by (simp add: falling_step falling_stop round2_def Math_round_def falling_draws_def)

text \<open>
  C8, as the code has it. The running price is clamped at half the current price and
  then rounded to cents for storage, so every stored price but the final one is at least
  the clamp value rounded to cents, hence above half the current price minus half a
  cent. (The final point holds the current price itself.)
\<close>

theorem stored_prices_floor:
  assumes "generateHistoricalPrices rnd now currentPrice days = Inr data"
    and "i + 1 < length data"
  shows "round2 (currentPrice * 0.5) \<le> price (data ! i)
       \<and> currentPrice * 0.5 - 1 / 200 < price (data ! i)"
proof -
  have "\<forall>d \<in> set (hist_loop rnd now currentPrice days 0 1
                     (currentPrice * (0.85 + rnd 0 * 0.3)) []).
          round2 (currentPrice * 0.5) \<le> price d"
    by (rule hist_loop_floor) simp
  with generateHistoricalPrices_nth [OF assms]
  have a: "round2 (currentPrice * 0.5) \<le> price (data ! i)" by blast
  moreover have "currentPrice * 0.5 - 1 / 200 < round2 (currentPrice * 0.5)"
    by (rule round2_lower)
  ultimately show ?thesis by linarith
qed

theorem stored_prices_floor_witness:
  "generateHistoricalPrices (\<lambda>k. 1 / 2) 0 100 3 =
     Inr [\<lparr>date = - 259200000, price = 100, volume = Some 35000000\<rparr>,
          \<lparr>date = - 172800000, price = 100, volume = Some 35000000\<rparr>,
          \<lparr>date = - 86400000, price = 100, volume = Some 35000000\<rparr>]
   \<and> round2 (100 * 0.5) \<le> (100::real) \<and> (100::real) * 0.5 - 1 / 200 < 100"
proof -
  have h: "generateHistoricalPrices (\<lambda>k. 1 / 2) 0 100 3 =
     Inr [\<lparr>date = - 259200000, price = 100, volume = Some 35000000\<rparr>,
          \<lparr>date = - 172800000, price = 100, volume = Some 35000000\<rparr>,
          \<lparr>date = - 86400000, price = 100, volume = Some 35000000\<rparr>]"
    by (simp add: generateHistoricalPrices_def hist_loop.simps Let_def set_last_price_def
        round2_def Math_round_def)
  from stored_prices_floor [OF h, of 0] h show ?thesis by simp
qed

text \<open>
  C8 as stated fails: with the current price 100.005 and thirty days of draws that lower
  the walk by 2.5 percent a day, the 21st stored price is 50.00, below half the current
  price, 50.0025.
\<close>

theorem stored_price_below_half:
  "stored_price (generateHistoricalPrices falling_draws 0 (100005 / 1000) 30) 20 = Some 50
   \<and> (50::real) < 100005 / 1000 * 0.5"
proof -
  let ?h = "hist_loop falling_draws 0 (100005 / 1000) 30 0 1
              (100005 / 1000 * (0.85 + falling_draws 0 * 0.3)) []"
  have len: "length ?h = 30" by (simp add: hist_loop_length)
  then have ne: "?h \<noteq> []" by auto
  have eq: "stored_price (generateHistoricalPrices falling_draws 0 (100005 / 1000) 30) 20
        = Some (price (?h ! 20))"
    using len ne
    by (simp add: stored_price_def generateHistoricalPrices_def Let_def set_last_price_def)
  have p: "price (?h ! 20) = 50" by (subst falling_run) simp
  show ?thesis unfolding eq p by simp
qed

subsection \<open>Properties of the demo quote\<close>

lemma generateHistoricalPrices_returns:
  assumes "1 \<le> days"
  shows "\<exists>hist. generateHistoricalPrices rnd now cp days = Inr hist"
proof -
  let ?h = "hist_loop rnd now cp days 0 1 (cp * (0.85 + rnd 0 * 0.3)) []"
  have "length ?h = nat days" by (simp add: hist_loop_length)
  then have "?h \<noteq> []" using assms by auto
  from set_last_price_ok [OF this, of cp]
  show ?thesis by (auto simp: generateHistoricalPrices_def Let_def)
qed

lemma getDemoStockData_fields:
  assumes "base_price rnd symbol = (b, k)"
  shows "\<exists>q. getDemoStockData rnd now symbol = Inr q
           \<and> q_price q = round2 (b + (rnd k - 0.5) * (b * 0.1))
           \<and> q_change q = round2 ((rnd (k + 1) - 0.5) * (b * 0.08))
           \<and> q_previousClose q =
               round2 (b + (rnd k - 0.5) * (b * 0.1) - (rnd (k + 1) - 0.5) * (b * 0.08))"
proof -
  obtain hist where
    h: "generateHistoricalPrices (\<lambda>j. rnd (k + 10 + j)) now (b + (rnd k - 0.5) * (b * 0.1)) 30
          = Inr hist"
  proof -
    have "(1::int) \<le> 30" by simp
    from generateHistoricalPrices_returns [OF this] show ?thesis using that by blast
  qed
  show ?thesis
    unfolding getDemoStockData_def assms Let_def prod.case h sum.case
    by simp
qed

lemma round_sum_close:
  "\<bar>Math_round c - (Math_round p - Math_round (p - c))\<bar> \<le> 1"
proof -
  have a: "real_of_int \<lfloor>p + 1 / 2\<rfloor> \<le> p + 1 / 2" "p + 1 / 2 < real_of_int \<lfloor>p + 1 / 2\<rfloor> + 1"
    by linarith+
  have b: "real_of_int \<lfloor>c + 1 / 2\<rfloor> \<le> c + 1 / 2" "c + 1 / 2 < real_of_int \<lfloor>c + 1 / 2\<rfloor> + 1"
    by linarith+
  have d: "real_of_int \<lfloor>p - c + 1 / 2\<rfloor> \<le> p - c + 1 / 2"
    "p - c + 1 / 2 < real_of_int \<lfloor>p - c + 1 / 2\<rfloor> + 1"
    by linarith+
  have "real_of_int (\<lfloor>c + 1 / 2\<rfloor> - (\<lfloor>p + 1 / 2\<rfloor> - \<lfloor>p - c + 1 / 2\<rfloor>)) < 2"
    "- 2 < real_of_int (\<lfloor>c + 1 / 2\<rfloor> - (\<lfloor>p + 1 / 2\<rfloor> - \<lfloor>p - c + 1 / 2\<rfloor>))"
    unfolding of_int_diff using a b d by linarith+
  then have "\<lfloor>c + 1 / 2\<rfloor> - (\<lfloor>p + 1 / 2\<rfloor> - \<lfloor>p - c + 1 / 2\<rfloor>) < 2"
    "- 2 < \<lfloor>c + 1 / 2\<rfloor> - (\<lfloor>p + 1 / 2\<rfloor> - \<lfloor>p - c + 1 / 2\<rfloor>)"
    by linarith+
  then show ?thesis unfolding Math_round_def by linarith
qed

lemma round2_change_close:
  "\<bar>round2 c - (round2 p - round2 (p - c))\<bar> \<le> 1 / 100"
proof -
  have "\<bar>Math_round (c * 100) - (Math_round (p * 100) - Math_round (p * 100 - c * 100))\<bar> \<le> 1"
    by (rule round_sum_close)
  then have k: "\<bar>real_of_int (Math_round (c * 100) - (Math_round (p * 100) - Math_round (p * 100 - c * 100)))\<bar> \<le> 1"
    by linarith
  have e: "(p - c) * 100 = p * 100 - c * 100" by (simp add: algebra_simps)
  have eq: "round2 c - (round2 p - round2 (p - c)) =
        real_of_int (Math_round (c * 100) - (Math_round (p * 100) - Math_round (p * 100 - c * 100))) / 100"
    unfolding round2_def e by (simp add: diff_divide_distrib)
  have "\<bar>real_of_int (Math_round (c * 100) - (Math_round (p * 100) - Math_round (p * 100 - c * 100))) / 100\<bar>
        = \<bar>real_of_int (Math_round (c * 100) - (Math_round (p * 100) - Math_round (p * 100 - c * 100)))\<bar> / 100"
    by simp
  also have "\<dots> \<le> 1 / 100"
    using k by (intro divide_right_mono) simp_all
  finally show ?thesis unfolding eq .
qed

text \<open>
  C9, as the code has it. \<^verbatim>\<open>getDemoStockData\<close> always returns a quote; before rounding
  \<^verbatim>\<open>previousClose\<close> is \<^verbatim>\<open>currentPrice - change\<close>, and each of the three fields is then
  rounded to cents on its own, so the stored \<open>change\<close> and the stored
  \<open>price - previousClose\<close> differ by at most one cent.
\<close>

theorem change_within_a_cent:
  "\<exists>q. getDemoStockData rnd now symbol = Inr q
       \<and> \<bar>q_change q - (q_price q - q_previousClose q)\<bar> \<le> 1 / 100"
proof -
  obtain b k where bk: "base_price rnd symbol = (b, k)" by (cases "base_price rnd symbol")
  from getDemoStockData_fields [OF bk, of now] obtain q where
    q: "getDemoStockData rnd now symbol = Inr q"
      "q_price q = round2 (b + (rnd k - 0.5) * (b * 0.1))"
      "q_change q = round2 ((rnd (k + 1) - 0.5) * (b * 0.08))"
      "q_previousClose q =
         round2 (b + (rnd k - 0.5) * (b * 0.1) - (rnd (k + 1) - 0.5) * (b * 0.08))"
    by blast
  have "\<bar>q_change q - (q_price q - q_previousClose q)\<bar> \<le> 1 / 100"
    unfolding q(2,3,4) by (rule round2_change_close)
  with q(1) show ?thesis by blast
qed

theorem change_within_a_cent_witness:
  "\<exists>q. getDemoStockData cent_draws 0 ''INTC'' = Inr q
       \<and> \<bar>q_change q - (q_price q - q_previousClose q)\<bar> \<le> 1 / 100"
  using change_within_a_cent [of cent_draws 0 "''INTC''"] by simp

lemma base_price_INTC: "base_price rnd ''INTC'' = (50, 0)"
  by (simp add: base_price_def basePrices_def)

text \<open>
  C9 as stated fails: for the symbol INTC (base price 50) and draws that give the current
  price 50.007 and the change 0.004, the stored price is 50.01, the stored change 0.00 and
  the stored previous close 50.00.
\<close>

theorem change_not_price_difference:
  "change_fields (getDemoStockData cent_draws 0 ''INTC'') = Some (5001 / 100, 0, 50)
   \<and> (0::real) \<noteq> 5001 / 100 - 50"
proof -
  from getDemoStockData_fields [OF base_price_INTC, of cent_draws 0] obtain q where
    q: "getDemoStockData cent_draws 0 ''INTC'' = Inr q"
      "q_price q = round2 (50 + (cent_draws 0 - 0.5) * (50 * 0.1))"
      "q_change q = round2 ((cent_draws (0 + 1) - 0.5) * (50 * 0.08))"
      "q_previousClose q =
         round2 (50 + (cent_draws 0 - 0.5) * (50 * 0.1) - (cent_draws (0 + 1) - 0.5) * (50 * 0.08))"
    by blast
  have "q_price q = 5001 / 100" "q_change q = 0" "q_previousClose q = 50"
    unfolding q(2,3,4) by (simp_all add: cent_draws_def round2_def Math_round_def)
  then show ?thesis using q(1) by (simp add: change_fields_def)
qed

subsection \<open>Properties of the moving average\<close>

lemma ma_sum_ok:
  assumes "0 \<le> j" and "j \<le> i + 1" and "i < int (length data)"
  shows "ma_sum data j i s =
         Inr (s + sum_list (map (\<lambda>k. price (data ! k)) [nat j..<nat (i + 1)]))"
  using assms
proof (induction data j i s rule: ma_sum.induct)
  case (1 data j i s)
  show ?case
  proof (cases "j \<le> i")
    case True
    with "1.prems" have at: "at_index data j = Some (data ! nat j)"
      by (simp add: at_index_def)
    have ih: "ma_sum data (j + 1) i (s + price (data ! nat j)) =
          Inr (s + price (data ! nat j)
               + sum_list (map (\<lambda>k. price (data ! k)) [nat (j + 1)..<nat (i + 1)]))"
      using "1.IH" [OF True at] "1.prems" True by simp
    have lt: "nat j < nat (i + 1)" using True "1.prems"(1) by linarith
    have suc: "nat (j + 1) = Suc (nat j)" using "1.prems"(1) by linarith
    have "[nat j..<nat (i + 1)] = nat j # [nat (j + 1)..<nat (i + 1)]"
      unfolding suc using lt by (rule upt_conv_Cons)
    then show ?thesis
      using True at ih by (subst ma_sum.simps) (simp add: add.assoc)
  next
    case False
    with "1.prems" have "j = i + 1" by simp
    then show ?thesis using False by (subst ma_sum.simps) simp
  qed
qed

lemma ma_loop_ok:
  assumes "1 \<le> period" and "0 \<le> i" and "i \<le> int (length data)"
    and "length result = nat i"
  shows "\<exists>r. ma_loop data period i result = Inr r \<and> length r = length data
           \<and> (\<forall>n < nat i. r ! n = result ! n)
           \<and> (\<forall>n. nat i \<le> n \<and> n < length data \<longrightarrow> r ! n = ma_entry data period n)"
  using assms
proof (induction data period i result rule: ma_loop.induct)
  case (1 data period i result)
  show ?case
  proof (cases "i < int (length data)")
    case False
    with "1.prems" have "i = int (length data)" by simp
    then show ?thesis using "1.prems" False by (subst ma_loop.simps) auto
  next
    case True
    define e where "e = ma_entry data period (nat i)"
    have step: "ma_loop data period i result = ma_loop data period (i + 1) (result @ [e])
              \<and> (\<exists>r. ma_loop data period (i + 1) (result @ [e]) = Inr r \<and> length r = length data
           \<and> (\<forall>n < nat (i + 1). r ! n = (result @ [e]) ! n)
           \<and> (\<forall>n. nat (i + 1) \<le> n \<and> n < length data \<longrightarrow> r ! n = ma_entry data period n))"
    proof (cases "i < period - 1")
      case less: True
      then have e: "e = None" using "1.prems"(2) by (simp add: e_def ma_entry_def)
      have a: "ma_loop data period i result = ma_loop data period (i + 1) (result @ [e])"
        using True less e by (subst ma_loop.simps) simp
      have b: "\<exists>r. ma_loop data period (i + 1) (result @ [None]) = Inr r \<and> length r = length data
           \<and> (\<forall>n < nat (i + 1). r ! n = (result @ [None]) ! n)
           \<and> (\<forall>n. nat (i + 1) \<le> n \<and> n < length data \<longrightarrow> r ! n = ma_entry data period n)"
        using "1.IH"(1) [OF True less] "1.prems" True by (simp add: nat_add_distrib)
      show ?thesis using a b e by simp
    next
      case geq: False
      have j0: "0 \<le> i - period + 1" using geq by simp
      have j1: "i - period + 1 \<le> i + 1" using "1.prems"(1) by simp
      have s: "ma_sum data (i - period + 1) i 0 =
               Inr (0 + sum_list (map (\<lambda>k. price (data ! k)) [nat (i - period + 1)..<nat i + 1]))"
        using ma_sum_ok [OF j0 j1 True, of 0] "1.prems"(2) by (simp add: nat_add_distrib)
      have lo: "nat (i - period + 1) = nat i + 1 - nat period"
        using geq "1.prems"(1,2) by linarith
      have cnt: "real (nat i + 1 - (nat i + 1 - nat period)) = real_of_int period"
        using geq "1.prems"(1,2) by simp
      have pne: "real_of_int period \<noteq> 0" using "1.prems"(1) by simp
      have e: "e = Some (jdiv (Fin (sum_list (map (\<lambda>k. price (data ! k))
                           [nat (i - period + 1)..<nat i + 1])))
                          (Fin (real_of_int period)))"
        using geq "1.prems"(2) pne
        by (simp add: e_def ma_entry_def mean_price_def lo cnt)
      have a: "ma_loop data period i result = ma_loop data period (i + 1) (result @ [e])"
        using True geq s e by (subst ma_loop.simps) simp
      have b: "\<exists>r. ma_loop data period (i + 1) (result @ [e]) = Inr r \<and> length r = length data
           \<and> (\<forall>n < nat (i + 1). r ! n = (result @ [e]) ! n)
           \<and> (\<forall>n. nat (i + 1) \<le> n \<and> n < length data \<longrightarrow> r ! n = ma_entry data period n)"
        unfolding e
        using "1.IH"(2) [OF True geq s] "1.prems" True by (simp add: nat_add_distrib)
      show ?thesis using a b by simp
    qed
    then obtain r where r: "ma_loop data period i result = Inr r" "length r = length data"
      "\<forall>n < nat (i + 1). r ! n = (result @ [e]) ! n"
      "\<forall>n. nat (i + 1) \<le> n \<and> n < length data \<longrightarrow> r ! n = ma_entry data period n"
      by auto
    have p1: "\<forall>n < nat i. r ! n = result ! n"
    proof (intro allI impI)
      fix n assume n: "n < nat i"
      then have "r ! n = (result @ [e]) ! n" using r(3) "1.prems"(2) by (simp add: nat_add_distrib)
      then show "r ! n = result ! n" using n "1.prems"(4) by (simp add: nth_append)
    qed
    have "r ! nat i = (result @ [e]) ! nat i"
      using r(3) "1.prems"(2) by (simp add: nat_add_distrib)
    then have here: "r ! nat i = ma_entry data period (nat i)"
      using "1.prems"(4) by (simp add: nth_append e_def)
    have p2: "\<forall>n. nat i \<le> n \<and> n < length data \<longrightarrow> r ! n = ma_entry data period n"
    proof (intro allI impI)
      fix n assume n: "nat i \<le> n \<and> n < length data"
      show "r ! n = ma_entry data period n"
      proof (cases "n = nat i")
        case True
        then show ?thesis using here by simp
      next
        case False
        with n "1.prems"(2) have "nat (i + 1) \<le> n" by linarith
        then show ?thesis using r(4) n by simp
      qed
    qed
    show ?thesis using r(1,2) p1 p2 by blast
  qed
qed

lemma ma_example:
  "calculateMovingAverage (points_of [10, 20, 30, 40, 50]) 3 =
     Inr [None, None, Some (Fin 20), Some (Fin 30), Some (Fin 40)]"
  by (simp add: calculateMovingAverage_def ma_loop.simps ma_sum.simps at_index_def points_of_def)

text \<open>
  C2. For every series and every period \<open>p \<ge> 1\<close>, \<^verbatim>\<open>calculateMovingAverage\<close> returns a
  list as long as the series; its entry at index \<open>i\<close> is \<^verbatim>\<open>null\<close> for \<open>i < p - 1\<close> and
  otherwise the arithmetic mean of the prices at indices \<open>i - p + 1\<close> to \<open>i\<close>. On the
  prices 10, 20, 30, 40, 50 with period 3 it returns null, null, 20, 30, 40.
\<close>

theorem moving_average_aligned:
  assumes "1 \<le> period"
  shows "(\<exists>r. calculateMovingAverage data period = Inr r \<and> length r = length data
            \<and> (\<forall>i < length data.
                  r ! i = (if int i < period - 1 then None
                           else Some (Fin (mean_price data (i + 1 - nat period) i)))))
       \<and> calculateMovingAverage (points_of [10, 20, 30, 40, 50]) 3 =
           Inr [None, None, Some (Fin 20), Some (Fin 30), Some (Fin 40)]"
proof
  from ma_loop_ok [OF assms, of 0 data "[]"]
  show "\<exists>r. calculateMovingAverage data period = Inr r \<and> length r = length data
            \<and> (\<forall>i < length data.
                  r ! i = (if int i < period - 1 then None
                           else Some (Fin (mean_price data (i + 1 - nat period) i))))"
    by (simp add: calculateMovingAverage_def ma_entry_def)
next
  show "calculateMovingAverage (points_of [10, 20, 30, 40, 50]) 3 =
           Inr [None, None, Some (Fin 20), Some (Fin 30), Some (Fin 40)]"
    by (rule ma_example)
qed

theorem moving_average_aligned_witness:
  "(1::int) \<le> 2
   \<and> (\<exists>r. calculateMovingAverage (points_of [4, 6, 11]) 2 = Inr r \<and> length r = 3
          \<and> r ! 0 = None \<and> r ! 1 = Some (Fin 5) \<and> r ! 2 = Some (Fin (17 / 2)))"
proof -
  have h: "(1::int) \<le> 2" by simp
  from moving_average_aligned [OF h, of "points_of [4, 6, 11]"]
  obtain r where r: "calculateMovingAverage (points_of [4, 6, 11]) 2 = Inr r"
    "length r = length (points_of [4, 6, 11])"
    "\<forall>i < length (points_of [4, 6, 11]).
        r ! i = (if int i < 2 - 1 then None
                 else Some (Fin (mean_price (points_of [4, 6, 11]) (i + 1 - nat 2) i)))"
    by blast
  have len: "length (points_of [4, 6, 11]) = 3" by (simp add: points_of_def)
  have "r ! 0 = None" using r(3) len by simp
  moreover have "r ! 1 = Some (Fin 5)"
    using r(3) [rule_format, of 1] len by (simp add: mean_price_def points_of_def)
  moreover have "r ! 2 = Some (Fin (17 / 2))"
    using r(3) [rule_format, of 2] len
    by (simp add: mean_price_def points_of_def upt_conv_Cons)
  ultimately show ?thesis using r(1,2) len by auto
qed

subsection \<open>Properties of the watchlist\<close>

lemma findIndex_from_none:
  "(findIndex_from P xs i = - 1) = (\<forall>x \<in> set xs. \<not> P x)" if "0 \<le> i"
  using that by (induction xs arbitrary: i) auto

lemma findIndex_none: "(findIndex P xs = - 1) = (\<forall>x \<in> set xs. \<not> P x)"
  by (simp add: findIndex_def findIndex_from_none)

lemma add_present:
  assumes "currentStock st = Some cs"
    and "q_symbol cs \<in> w_symbol ` set (watchlist st)"
  shows "addToWatchlist nowISO write_ok st =
         st\<lparr>notifications := notifications st
               @ [(q_symbol cs @ '' is already in your watchlist'', ''warning'')]\<rparr>"
proof -
  have "findIndex (\<lambda>stock. w_symbol stock = q_symbol cs) (watchlist st) \<noteq> - 1"
    using assms(2) by (auto simp: findIndex_none)
  then show ?thesis
    using assms(1) by (simp add: addToWatchlist_def Let_def showNotification_def)
qed

lemma add_absent:
  assumes "currentStock st = Some cs"
    and "q_symbol cs \<notin> w_symbol ` set (watchlist st)"
  shows "watchlist (addToWatchlist nowISO write_ok st) =
         watchlist st @ [\<lparr>w_symbol = q_symbol cs, w_name = q_name cs, w_addedAt = nowISO,
                          w_price = q_price cs, w_change = q_change cs,
                          w_changePercent = q_changePercent cs\<rparr>]"
    and "currentStock (addToWatchlist nowISO write_ok st) = Some cs"
proof -
  have "findIndex (\<lambda>stock. w_symbol stock = q_symbol cs) (watchlist st) = - 1"
    using assms(2) by (force simp: findIndex_none)
  then show "watchlist (addToWatchlist nowISO write_ok st) =
         watchlist st @ [\<lparr>w_symbol = q_symbol cs, w_name = q_name cs, w_addedAt = nowISO,
                          w_price = q_price cs, w_change = q_change cs,
                          w_changePercent = q_changePercent cs\<rparr>]"
    and "currentStock (addToWatchlist nowISO write_ok st) = Some cs"
    using assms(1) by (simp_all add: addToWatchlist_def Let_def showNotification_def)
qed

lemma entries_for_zero: "(entries_for s wl = 0) = (s \<notin> w_symbol ` set wl)"
  by (auto simp: entries_for_def filter_empty_conv)

text \<open>
  C6. With a current stock selected: if an entry with its symbol is already in the
  watchlist, \<^verbatim>\<open>addToWatchlist\<close> shows a warning and leaves the watchlist (and the stored
  copy) unchanged; if there is none, it appends exactly one entry with that symbol, and a
  second call is rejected with the warning, so that the symbol has exactly one entry.
\<close>

theorem watchlist_add_unique:
  assumes "currentStock st = Some cs"
  shows "(q_symbol cs \<in> w_symbol ` set (watchlist st) \<longrightarrow>
            watchlist (addToWatchlist t ok st) = watchlist st
          \<and> storage (addToWatchlist t ok st) = storage st
          \<and> notifications (addToWatchlist t ok st) =
              notifications st @ [(q_symbol cs @ '' is already in your watchlist'', ''warning'')])
       \<and> (q_symbol cs \<notin> w_symbol ` set (watchlist st) \<longrightarrow>
            (\<exists>item. watchlist (addToWatchlist t ok st) = watchlist st @ [item]
                    \<and> w_symbol item = q_symbol cs)
          \<and> entries_for (q_symbol cs) (watchlist (addToWatchlist t ok st)) = 1
          \<and> watchlist (addToWatchlist t' ok' (addToWatchlist t ok st)) =
              watchlist (addToWatchlist t ok st)
          \<and> entries_for (q_symbol cs)
               (watchlist (addToWatchlist t' ok' (addToWatchlist t ok st))) = 1
          \<and> notifications (addToWatchlist t' ok' (addToWatchlist t ok st)) =
              notifications (addToWatchlist t ok st)
              @ [(q_symbol cs @ '' is already in your watchlist'', ''warning'')])"
proof (intro conjI impI)
  assume p: "q_symbol cs \<in> w_symbol ` set (watchlist st)"
  note e = add_present [OF assms p, of t ok]
  show "watchlist (addToWatchlist t ok st) = watchlist st" by (simp add: e)
  show "storage (addToWatchlist t ok st) = storage st" by (simp add: e)
  show "notifications (addToWatchlist t ok st) =
        notifications st @ [(q_symbol cs @ '' is already in your watchlist'', ''warning'')]"
    by (simp add: e)
next
  assume a: "q_symbol cs \<notin> w_symbol ` set (watchlist st)"
  note w = add_absent(1) [OF assms a, of t ok] and c = add_absent(2) [OF assms a, of t ok]
  show "\<exists>item. watchlist (addToWatchlist t ok st) = watchlist st @ [item]
                \<and> w_symbol item = q_symbol cs"
    using w by simp
  have z: "filter (\<lambda>stock. w_symbol stock = q_symbol cs) (watchlist st) = []"
    using a by (force simp: filter_empty_conv)
  show one: "entries_for (q_symbol cs) (watchlist (addToWatchlist t ok st)) = 1"
    by (simp add: entries_for_def w z)
  have p: "q_symbol cs \<in> w_symbol ` set (watchlist (addToWatchlist t ok st))"
    by (simp add: w)
  note e = add_present [OF c p, of t' ok']
  show same: "watchlist (addToWatchlist t' ok' (addToWatchlist t ok st)) =
        watchlist (addToWatchlist t ok st)"
    by (simp add: e)
  show "entries_for (q_symbol cs)
          (watchlist (addToWatchlist t' ok' (addToWatchlist t ok st))) = 1"
    unfolding same by (rule one)
  show "notifications (addToWatchlist t' ok' (addToWatchlist t ok st)) =
        notifications (addToWatchlist t ok st)
        @ [(q_symbol cs @ '' is already in your watchlist'', ''warning'')]"
    by (simp add: e)
qed

theorem watchlist_add_unique_witness:
  "currentStock (sample_state []) = Some sample_quote
   \<and> q_symbol sample_quote \<notin> w_symbol ` set (watchlist (sample_state []))
   \<and> entries_for ''AAPL''
        (watchlist (addToWatchlist ''t2'' True (addToWatchlist ''t1'' True (sample_state [])))) = 1
   \<and> q_symbol sample_quote \<in> w_symbol ` set (watchlist (sample_state [sample_item ''AAPL'']))
   \<and> watchlist (addToWatchlist ''t1'' True (sample_state [sample_item ''AAPL'']))
       = [sample_item ''AAPL'']
   \<and> notifications (addToWatchlist ''t1'' True (sample_state [sample_item ''AAPL'']))
       = [(''AAPL is already in your watchlist'', ''warning'')]"
proof -
  have c: "currentStock (sample_state wl) = Some sample_quote" for wl
    by (simp add: sample_state_def)
  have a: "q_symbol sample_quote \<notin> w_symbol ` set (watchlist (sample_state []))"
    by (simp add: sample_state_def)
  have p: "q_symbol sample_quote \<in> w_symbol ` set (watchlist (sample_state [sample_item ''AAPL'']))"
    by (simp add: sample_state_def sample_item_def sample_quote_def)
  from watchlist_add_unique [OF c, of "[]" "''t1''" True "''t2''" True] a
    watchlist_add_unique [OF c, of "[sample_item ''AAPL'']" "''t1''" True] p c
  show ?thesis by (simp add: sample_state_def sample_quote_def)
qed

lemma remove_filter:
  "watchlist (removeFromWatchlist symbol ok st) =
     filter (\<lambda>stock. w_symbol stock \<noteq> symbol) (watchlist st)"
  by (simp add: removeFromWatchlist_def Let_def showNotification_def)

lemma filter_absent:
  "s \<notin> w_symbol ` set wl \<Longrightarrow> filter (\<lambda>stock. w_symbol stock \<noteq> s) wl = wl"
  by (induction wl) auto

lemma filter_present_shorter:
  assumes "s \<in> w_symbol ` set wl"
  shows "length (filter (\<lambda>stock. w_symbol stock \<noteq> s) wl) < length wl"
proof -
  from assms obtain x where x: "x \<in> set wl" "w_symbol x = s" by auto
  show ?thesis by (rule length_filter_less [OF x(1)]) (simp add: x(2))
qed

lemma filter_distinct_one:
  "distinct (map w_symbol wl) \<Longrightarrow> s \<in> w_symbol ` set wl \<Longrightarrow>
   length (filter (\<lambda>stock. w_symbol stock \<noteq> s) wl) + 1 = length wl"
proof (induction wl)
  case Nil
  then show ?case by simp
next
  case (Cons x xs)
  show ?case
  proof (cases "w_symbol x = s")
    case True
    with Cons.prems(1) have "s \<notin> w_symbol ` set xs" by auto
    then have "filter (\<lambda>stock. w_symbol stock \<noteq> s) xs = xs" by (rule filter_absent)
    with True show ?thesis by simp
  next
    case False
    with Cons show ?thesis by auto
  qed
qed

text \<open>
  C7. Removing a symbol that has no entry leaves the watchlist and the stored copy as
  they were and logs a warning that the stock was not found. If the symbols of the
  watchlist are distinct, removing a symbol that has an entry shortens the list by
  exactly one, to the entries with another symbol, and that list is what a successful
  \<^verbatim>\<open>localStorage.setItem\<close> has stored (\<open>ok = True\<close>).
\<close>

theorem watchlist_remove:
  "(symbol \<notin> w_symbol ` set (watchlist st) \<longrightarrow>
      watchlist (removeFromWatchlist symbol ok st) = watchlist st
    \<and> storage (removeFromWatchlist symbol ok st) = storage st
    \<and> notifications (removeFromWatchlist symbol ok st) = notifications st
    \<and> warnings (removeFromWatchlist symbol ok st) =
        warnings st @ [''Stock '' @ symbol @ '' not found in watchlist''])
 \<and> (symbol \<in> w_symbol ` set (watchlist st) \<and> distinct (map w_symbol (watchlist st)) \<longrightarrow>
      length (watchlist (removeFromWatchlist symbol ok st)) + 1 = length (watchlist st)
    \<and> watchlist (removeFromWatchlist symbol ok st) =
        filter (\<lambda>stock. w_symbol stock \<noteq> symbol) (watchlist st)
    \<and> storage (removeFromWatchlist symbol True st) =
        Some (watchlist (removeFromWatchlist symbol True st))
    \<and> warnings (removeFromWatchlist symbol ok st) = warnings st)"
proof (intro conjI impI)
  assume a: "symbol \<notin> w_symbol ` set (watchlist st)"
  note f = filter_absent [OF a]
  show "watchlist (removeFromWatchlist symbol ok st) = watchlist st"
    by (simp add: remove_filter f)
  show "storage (removeFromWatchlist symbol ok st) = storage st"
    by (simp add: removeFromWatchlist_def Let_def f)
  show "notifications (removeFromWatchlist symbol ok st) = notifications st"
    by (simp add: removeFromWatchlist_def Let_def f)
  show "warnings (removeFromWatchlist symbol ok st) =
        warnings st @ [''Stock '' @ symbol @ '' not found in watchlist'']"
    by (simp add: removeFromWatchlist_def Let_def f)
next
  assume "symbol \<in> w_symbol ` set (watchlist st) \<and> distinct (map w_symbol (watchlist st))"
  then have p: "symbol \<in> w_symbol ` set (watchlist st)"
    and d: "distinct (map w_symbol (watchlist st))" by simp_all
  note l = filter_present_shorter [OF p]
  show "length (watchlist (removeFromWatchlist symbol ok st)) + 1 = length (watchlist st)"
    unfolding remove_filter using d p by (rule filter_distinct_one)
  show "watchlist (removeFromWatchlist symbol ok st) =
        filter (\<lambda>stock. w_symbol stock \<noteq> symbol) (watchlist st)"
    by (rule remove_filter)
  show "storage (removeFromWatchlist symbol True st) =
        Some (watchlist (removeFromWatchlist symbol True st))"
    using l by (simp add: removeFromWatchlist_def Let_def showNotification_def)
  show "warnings (removeFromWatchlist symbol ok st) = warnings st"
    using l by (simp add: removeFromWatchlist_def Let_def showNotification_def)
qed

theorem watchlist_remove_witness:
  "''MSFT'' \<notin> w_symbol ` set (watchlist (sample_state [sample_item ''AAPL'', sample_item ''TSLA'']))
   \<and> watchlist (removeFromWatchlist ''MSFT'' True
         (sample_state [sample_item ''AAPL'', sample_item ''TSLA'']))
       = [sample_item ''AAPL'', sample_item ''TSLA'']
   \<and> ''AAPL'' \<in> w_symbol ` set (watchlist (sample_state [sample_item ''AAPL'', sample_item ''TSLA'']))
   \<and> distinct (map w_symbol (watchlist (sample_state [sample_item ''AAPL'', sample_item ''TSLA''])))
   \<and> storage (removeFromWatchlist ''AAPL'' True
         (sample_state [sample_item ''AAPL'', sample_item ''TSLA'']))
       = Some [sample_item ''TSLA'']"
proof -
  let ?st = "sample_state [sample_item ''AAPL'', sample_item ''TSLA'']"
  have a: "''MSFT'' \<notin> w_symbol ` set (watchlist ?st)"
    by (simp add: sample_state_def sample_item_def)
  have p: "''AAPL'' \<in> w_symbol ` set (watchlist ?st)"
    by (simp add: sample_state_def sample_item_def)
  have d: "distinct (map w_symbol (watchlist ?st))"
    by (simp add: sample_state_def sample_item_def)
  have f: "filter (\<lambda>stock. w_symbol stock \<noteq> ''AAPL'') (watchlist ?st) = [sample_item ''TSLA'']"
    by (simp add: sample_state_def sample_item_def)
  from watchlist_remove [of "''MSFT''" ?st True] a
  have 1: "watchlist (removeFromWatchlist ''MSFT'' True ?st) = [sample_item ''AAPL'', sample_item ''TSLA'']"
    by (simp add: sample_state_def)
  from watchlist_remove [of "''AAPL''" ?st True] p d f
  have 2: "storage (removeFromWatchlist ''AAPL'' True ?st) = Some [sample_item ''TSLA'']"
    by simp
  from a p d 1 2 show ?thesis by blast
qed

subsection \<open>Properties of the chart mapping and the renderers\<close>

lemma xCoord_Fin:
  assumes "2 \<le> len"
  shows "xCoord padding chartWidth len index =
         Fin (padding + real index / real_of_int (int len - 1) * chartWidth)"
proof -
  have "real_of_int (int len - 1) \<noteq> 0" using assms by simp
  then show ?thesis by (simp add: xCoord_def)
qed

text \<open>
  C5. The inverted Y mapping sends, for the domain from 0 to 100, the pixel extent 200 and
  the padding 0, the value 50 to pixel 100, the value 0 to pixel 200 and the value 100 to
  pixel 0; and for a series of at least two points and a positive chart width the X
  coordinate is a finite number that grows strictly with the index.
\<close>

theorem coordinate_mapping:
  assumes "2 \<le> len" and "0 < chartWidth" and "i < j" and "j < len"
  shows "yCoord 0 200 (Fin 0) (Fin 100) 50 = Fin 100
       \<and> yCoord 0 200 (Fin 0) (Fin 100) 0 = Fin 200
       \<and> yCoord 0 200 (Fin 0) (Fin 100) 100 = Fin 0
       \<and> (\<exists>xi xj. xCoord padding chartWidth len i = Fin xi
                 \<and> xCoord padding chartWidth len j = Fin xj \<and> xi < xj)"
proof (intro conjI)
  show "yCoord 0 200 (Fin 0) (Fin 100) 50 = Fin 100" by (simp add: yCoord_def jsub_def)
  show "yCoord 0 200 (Fin 0) (Fin 100) 0 = Fin 200" by (simp add: yCoord_def jsub_def)
  show "yCoord 0 200 (Fin 0) (Fin 100) 100 = Fin 0" by (simp add: yCoord_def jsub_def)
  have d: "0 < real_of_int (int len - 1)" using assms(1) by simp
  have "real i / real_of_int (int len - 1) < real j / real_of_int (int len - 1)"
    using assms(3) d by (simp add: divide_strict_right_mono)
  then have "real i / real_of_int (int len - 1) * chartWidth
           < real j / real_of_int (int len - 1) * chartWidth"
    by (rule mult_strict_right_mono) (rule assms(2))
  then show "\<exists>xi xj. xCoord padding chartWidth len i = Fin xi
                 \<and> xCoord padding chartWidth len j = Fin xj \<and> xi < xj"
    using xCoord_Fin [OF assms(1)] by simp
qed

theorem coordinate_mapping_witness:
  "(2::nat) \<le> 5 \<and> (0::real) < 260 \<and> (1::nat) < 3 \<and> (3::nat) < 5
   \<and> xCoord 20 260 5 1 = Fin 85 \<and> xCoord 20 260 5 3 = Fin 215
   \<and> yCoord 0 200 (Fin 0) (Fin 100) 50 = Fin 100"
proof -
  have h: "(2::nat) \<le> 5" "(0::real) < 260" "(1::nat) < 3" "(3::nat) < 5" by simp_all
  from coordinate_mapping [OF h, of 20]
  have "yCoord 0 200 (Fin 0) (Fin 100) 50 = Fin 100" by blast
  moreover have "xCoord 20 260 5 1 = Fin 85" "xCoord 20 260 5 3 = Fin 215"
    by (simp_all add: xCoord_def)
  ultimately show ?thesis by simp
qed

text \<open>
  The guarded domain computation \<^verbatim>\<open>maxPrice - minPrice || 1\<close> of
  \<^verbatim>\<open>drawStockLineChart\<close>, \<^verbatim>\<open>drawMiniChart\<close> and \<^verbatim>\<open>drawEnhancedMiniChart\<close>: on a flat
  series the range is 1 and every point is mapped to the bottom of the chart.
\<close>

lemma Math_min_replicate: "Math_min (replicate (Suc n) v) = Fin v"
proof -
  have "fold (\<lambda>x m. jmin2 m (Fin x)) (replicate n v) (Fin v) = Fin v" by (induction n) auto
  then show ?thesis by (simp add: Math_min_def)
qed

lemma Math_max_replicate: "Math_max (replicate (Suc n) v) = Fin v"
proof -
  have "fold (\<lambda>x m. jmax2 m (Fin x)) (replicate n v) (Fin v) = Fin v" by (induction n) auto
  then show ?thesis by (simp add: Math_max_def)
qed

lemma guarded_flat_range: "guarded_range (replicate (Suc n) v) = Fin 1"
  unfolding guarded_range_def Math_min_replicate Math_max_replicate
  by (simp add: jsub_def jor_def truthy_def)

lemma guarded_flat_coincide:
  "yCoord padding chartHeight (Math_min (replicate (Suc n) v))
     (guarded_range (replicate (Suc n) v)) v = Fin (padding + chartHeight)"
  unfolding guarded_flat_range Math_min_replicate
  by (simp add: yCoord_def jsub_def)

text \<open>
  C3 against the code. \<^verbatim>\<open>drawComprehensiveChart\<close> takes \<^verbatim>\<open>maxPrice - minPrice\<close> as it
  is: on the flat series 42, 42, 42 its range is 0, the quotient is 0/0 and every point of
  the price line has the Y coordinate \<^verbatim>\<open>NaN\<close> (only the two corners that close the filled
  area are numbers), while \<^verbatim>\<open>drawStockLineChart\<close> maps the same series to one coordinate.
\<close>

theorem flat_series_unguarded:
  "comprehensive_domain (points_of [42, 42, 42]) = (Fin 42, Fin 42, Fin 0)
   \<and> yCoord 60 280 (Fin 42) (Fin 0) 42 = NaN
   \<and> List.map_filter y_of (comprehensive_price_layer (points_of [42, 42, 42]) 800 400)
       = [NaN, NaN, NaN, Fin 340, Fin 340, NaN, NaN, NaN]
   \<and> List.map_filter y_of (fst (drawStockLineChart (points_of [42, 42, 42]) 800 400))
       = [Fin 380, Fin 380, Fin 380, Fin 380, Fin 380, Fin 380, Fin 380, Fin 380]"
  by (simp add: drawStockLineChart_def jor_def truthy_def comprehensive_domain_def comprehensive_price_layer_def drawPriceLine_def
      points_of_def Math_min_def Math_max_def jsub_def yCoord_def xCoord_def trace_line_def
      enumerate_eq_zip List.map_filter_def Let_def upt_conv_Cons)

text \<open>
  C4 against the code, on an empty series and a 280 by 80 canvas.
  \<^verbatim>\<open>drawStockLineChart\<close> returns after clearing the canvas. \<^verbatim>\<open>drawMiniChart\<close> has no
  such guard and goes on to fill and stroke paths. \<^verbatim>\<open>drawEnhancedMiniChart\<close> does the
  same and then throws a \<^verbatim>\<open>TypeError\<close> when it reads \<^verbatim>\<open>data[data.length - 1].value\<close>.
\<close>

theorem empty_series_rendering:
  "drawStockLineChart [] 280 80 = ([ClearRect 0 0 280 80], None)
   \<and> drawMiniChart [] 280 80 =
       ([ClearRect 0 0 280 80,
         SetFillStyle (LinearGradient 0 5 0 75
                         [(0, ''rgba(239, 68, 68, 0.1)''), (1, ''transparent'')]),
         BeginPath, LineTo (Fin 275) (Fin 75), LineTo (Fin 5) (Fin 75), ClosePath, Fill,
         SetStrokeStyle ''#ef4444'', SetLineWidth 2, BeginPath, Stroke], None)
   \<and> drawEnhancedMiniChart rnd [] 280 80 =
       ([ClearRect 0 0 280 80, SetFillStyle (Color ''rgba(156, 163, 175, 0.5)''),
         SetFillStyle (LinearGradient 0 10 0 50
                         [(0, ''rgba(239, 68, 68, 0.2)''), (1, ''transparent'')]),
         BeginPath, LineTo (Fin 270) (Fin 50), LineTo (Fin 10) (Fin 50), ClosePath, Fill,
         SetStrokeStyle ''#ef4444'', SetLineWidth 2, BeginPath, Stroke], Some TypeError)"
  by (simp add: drawStockLineChart_def drawMiniChart_def drawEnhancedMiniChart_def Let_def
      trace_line_def volume_bars_def isPositive_def at_index_def enumerate_eq_zip)

end
